theory Spec2Isabelle
  imports Complex_Main
begin

section \<open>The JavaScript runtime the dashboard runs on\<close>

text \<open>
  The weather dashboard is one React module. Its helper functions call services of the
  JavaScript runtime whose results the module does not compute itself: the conversion of a
  number to its shortest decimal string, URL encoding, the parsing of date strings, the
  clock and the locale-dependent formatting of dates. They are fields of the record
  \<open>runtime\<close>, which every function that needs one of them takes as its first argument;
  each theorem below holds for every runtime.

  Data is typed as the module uses it. A JavaScript number that is finite is the rational
  it denotes (every finite double is a rational; \<open>-0\<close> and \<open>0\<close> are both \<open>0\<close>, which no
  function below tells apart). A string is a list of 8-bit code units. A value that may be
  \<open>null\<close> or \<open>undefined\<close> is an \<open>option\<close>, with \<open>None\<close> for both.
\<close>

record runtime =
  num_to_string :: "rat \<Rightarrow> string"
    \<comment> \<open>\<open>String(x)\<close>, also what a template literal inserts for a number\<close>
  encodeURIComponent :: "string \<Rightarrow> string"
  params_to_string :: "(string \<times> string) list \<Rightarrow> string"
    \<comment> \<open>\<open>URLSearchParams.prototype.toString\<close>\<close>
  date_parse :: "string \<Rightarrow> int option"
    \<comment> \<open>\<open>new Date(s).getTime()\<close> in milliseconds; \<open>None\<close> is \<open>NaN\<close> (an invalid date)\<close>
  date_now :: int
    \<comment> \<open>\<open>Date.now()\<close>\<close>
  to_locale_time_string :: "string \<Rightarrow> string \<Rightarrow> string option"
    \<comment> \<open>\<open>new Date(iso).toLocaleTimeString(locale, {hour: "2-digit", minute: "2-digit"})\<close>;
        \<open>None\<close> when the call throws\<close>
  to_locale_date_string :: "string \<Rightarrow> string \<Rightarrow> string option"
    \<comment> \<open>\<open>new Date(iso).toLocaleDateString(locale, {weekday: "short"})\<close>;
        \<open>None\<close> when the call throws\<close>
  to_locale_upper_case :: "string \<Rightarrow> string \<Rightarrow> string"
    \<comment> \<open>\<open>c.toLocaleUpperCase(locale)\<close>\<close>

text \<open>
  Comparison \<open>t >= now\<close> of two time values: false as soon as one of them is \<open>NaN\<close>.
\<close>

fun js_ge :: "int option \<Rightarrow> int option \<Rightarrow> bool" where
  "js_ge (Some t) (Some n) = (n \<le> t)"
| "js_ge _ _ = False"

text \<open>\<open>xs[i]\<close>: the element, or \<open>undefined\<close> outside the array.\<close>

definition at_index :: "'a list \<Rightarrow> nat \<Rightarrow> 'a option" where
  "at_index xs i = (if i < length xs then Some (xs ! i) else None)"

text \<open>\<open>s || d\<close> for a string or \<open>undefined\<close> \<open>s\<close>: the empty string is falsy too.\<close>

fun or_else :: "string option \<Rightarrow> string \<Rightarrow> string" where
  "or_else None d = d"
| "or_else (Some s) d = (if s = [] then d else s)"

text \<open>\<open>xs.join(sep)\<close> on an array of strings.\<close>

fun join :: "string \<Rightarrow> string list \<Rightarrow> string" where
  "join sep [] = []"
| "join sep [x] = x"
| "join sep (x # y # ys) = x @ sep @ join sep (y # ys)"

text \<open>
  \<open>s.trim()\<close>: white space and line terminators are removed at both ends. Among the 8-bit
  code units these are tab, line feed, vertical tab, form feed, carriage return, space and
  the no-break space.
\<close>

definition is_space :: "char \<Rightarrow> bool" where
  "is_space c = (of_char c \<in> {9, 10, 11, 12, 13, 32, 160 :: nat})"

definition trim :: "string \<Rightarrow> string" where
  "trim s = rev (dropWhile is_space (rev (dropWhile is_space s)))"

subsection \<open>\<open>Number.prototype.toFixed\<close>\<close>

text \<open>
  \<open>decimal n\<close> is the string of the digits of the decimal representation of \<open>n\<close>.
\<close>

definition digit_char :: "nat \<Rightarrow> char" where
  "digit_char d = char_of (48 + d)"

fun decimal :: "nat \<Rightarrow> string" where
  "decimal n = (if n < 10 then [digit_char n]
                else decimal (n div 10) @ [digit_char (n mod 10)])"

declare decimal.simps [simp del]

text \<open>
  For \<open>x \<ge> 0\<close>, \<open>nearest f x\<close> is the integer \<open>n\<close> for which \<open>n / 10^f - x\<close> is as close
  to zero as possible, the larger one if there are two.
\<close>

definition nearest :: "nat \<Rightarrow> rat \<Rightarrow> nat" where
  "nearest f x = nat \<lfloor>x * 10 ^ f + 1 / 2\<rfloor>"

text \<open>
  \<open>x.toFixed(f)\<close> for a finite number \<open>x\<close> and \<open>0 \<le> f \<le> 100\<close>, step by step as ECMAScript
  defines it: the sign is split off (only a number below zero gets \<open>"-"\<close>); a magnitude of
  \<open>10^21\<close> or more is printed by the runtime's number-to-string conversion; a smaller
  one is rounded to \<open>n / 10^f\<close>, the digits of \<open>n\<close> are padded with zeros on the left to
  \<open>f + 1\<close> digits, and the decimal point is put before the last \<open>f\<close> of them.
\<close>

definition toFixed :: "runtime \<Rightarrow> rat \<Rightarrow> nat \<Rightarrow> string" where
  "toFixed rt x0 f =
     (let s = (if x0 < 0 then ''-'' else '''');
          x = (if x0 < 0 then - x0 else x0)
      in if 10 ^ 21 \<le> x then s @ num_to_string rt x
         else
           let n = nearest f x;
               m = (if n = 0 then ''0'' else decimal n)
           in if f \<noteq> 0 then
                let k = length m;
                    m' = (if k \<le> f then replicate (f + 1 - k) (CHR ''0'') @ m else m);
                    k' = (if k \<le> f then f + 1 else k)
                in s @ take (k' - f) m' @ ''.'' @ drop (k' - f) m'
              else s @ m)"

section \<open>Places\<close>

text \<open>
  A place as the geocoding service returns it (\<open>raw_place\<close>: \<open>id\<close>, \<open>admin1\<close>, \<open>country\<close>
  and \<open>timezone\<close> may be missing) and as the application keeps it (\<open>place\<close>). The field
  \<open>id\<close> is \<open>id_str\<close> here. Records that share a field name qualify it: \<open>place.latitude\<close>.
\<close>

record raw_place =
  id_str :: "string option"
  name :: string
  admin1 :: "string option"
  country :: "string option"
  latitude :: rat
  longitude :: rat
  timezone :: "string option"

record place =
  id_str :: string
  name :: string
  admin1 :: "string option"
  country :: "string option"
  latitude :: rat
  longitude :: rat
  timezone :: "string option"

text \<open>
  \<^verbatim>\<open>function normalizePlace(p) { if (!p) return null;
     return { id: p.id ?? `${p.latitude},${p.longitude}`, name: p.name, ... }; }\<close>
\<close>

fun normalizePlace :: "runtime \<Rightarrow> raw_place option \<Rightarrow> place option" where
  "normalizePlace rt None = None"
| "normalizePlace rt (Some p) = Some
     \<lparr> place.id_str = (case raw_place.id_str p of
           Some i \<Rightarrow> i
         | None \<Rightarrow> num_to_string rt (raw_place.latitude p) @ '','' @
                     num_to_string rt (raw_place.longitude p)),
       place.name = raw_place.name p,
       place.admin1 = raw_place.admin1 p,
       place.country = raw_place.country p,
       place.latitude = raw_place.latitude p,
       place.longitude = raw_place.longitude p,
       place.timezone = raw_place.timezone p \<rparr>"

text \<open>
  \<^verbatim>\<open>function isSamePlace(a, b) {
    if (!a || !b) return false;
    const keyA = `${a.latitude.toFixed(4)}:${a.longitude.toFixed(4)}`;
    const keyB = `${b.latitude.toFixed(4)}:${b.longitude.toFixed(4)}`;
    return keyA === keyB; }\<close>
  The arguments are places or \<open>null\<close>; an object is always truthy.
\<close>

fun isSamePlace :: "runtime \<Rightarrow> place option \<Rightarrow> place option \<Rightarrow> bool" where
  "isSamePlace rt (Some a) (Some b) =
     (let keyA = toFixed rt (place.latitude a) 4 @ '':'' @ toFixed rt (place.longitude a) 4;
          keyB = toFixed rt (place.latitude b) 4 @ '':'' @ toFixed rt (place.longitude b) 4
      in keyA = keyB)"
| "isSamePlace rt _ _ = False"

declare isSamePlace.simps(1) [simp del]

section \<open>Favorites\<close>

text \<open>
  \<^verbatim>\<open>const isFavorite = useMemo(() => favorites.some((f) => isSamePlace(f, place)), ...)\<close>
  where \<open>place\<close> is the current place, \<open>null\<close> while none is selected.
\<close>

definition isFavorite :: "runtime \<Rightarrow> place list \<Rightarrow> place option \<Rightarrow> bool" where
  "isFavorite rt favorites current = list_ex (\<lambda>f. isSamePlace rt (Some f) current) favorites"

text \<open>
  In \<open>FavoriteChips\<close>, the chip of the favorite \<open>p\<close> is drawn active when
  \<^verbatim>\<open>current && isSamePlace(current, p)\<close> is truthy.
\<close>

definition chipActive :: "runtime \<Rightarrow> place option \<Rightarrow> place \<Rightarrow> bool" where
  "chipActive rt current p = (current \<noteq> None \<and> isSamePlace rt current (Some p))"

text \<open>
  \<^verbatim>\<open>function toggleFavorite(p = place) {
    if (!p) return;
    setFavorites((prev) => {
      const exists = prev.some((f) => isSamePlace(f, p));
      if (exists) return prev.filter((f) => !isSamePlace(f, p));
      return [p, ...prev].slice(0, 12); }); }\<close>
  The model is the new value of the favorites list, from the argument \<open>p\<close> (after the
  default has been applied) and the previous list; with \<open>p\<close> null the list is not touched.
\<close>

definition toggleFavorite :: "runtime \<Rightarrow> place option \<Rightarrow> place list \<Rightarrow> place list" where
  "toggleFavorite rt p prev =
     (case p of
        None \<Rightarrow> prev
      | Some q \<Rightarrow>
          let exists = list_ex (\<lambda>f. isSamePlace rt (Some f) p) prev
          in if exists then filter (\<lambda>f. \<not> isSamePlace rt (Some f) p) prev
             else take 12 (q # prev))"

section \<open>Forecast snapshots and the series built from them\<close>

text \<open>
  The forecast response, with the fields the series builders read: two blocks of parallel
  arrays. The response itself, each block and each array may be missing. The points of the
  two series follow; the fields \<open>max\<close> and \<open>min\<close> of a daily point are \<open>max_temp\<close> and
  \<open>min_temp\<close> here.

  The hourly builder reads the length and the elements of its arrays and nothing else. The
  daily builder calls a method of its time array, \<open>t.map\<close>, which only an array has. So a
  field of the daily block, when present, is a \<open>field_value\<close>: an array, or a scalar, that is
  \<open>true\<close> or a number other than zero, a truthy value with no \<open>map\<close> and no elements. A
  missing field, \<open>null\<close> and the falsy scalars are \<open>None\<close>: \<open>|| []\<close> replaces them all.
\<close>

datatype 'a field_value = Items "'a list" | Scalar

datatype type_error = TypeError

record hourly_block =
  time :: "string list option"
  temperature_2m :: "rat list option"
  apparent_temperature :: "rat list option"
  precipitation_probability :: "rat list option"

record daily_block =
  time :: "string field_value option"
  temperature_2m_max :: "rat field_value option"
  temperature_2m_min :: "rat field_value option"
  weather_code :: "rat field_value option"
  sunrise :: "string field_value option"
  sunset :: "string field_value option"

record forecast =
  hourly :: "hourly_block option"
  daily :: "daily_block option"

record hourly_point =
  time :: string
  temp :: "rat option"
  feels :: "rat option"
  pop :: "rat option"
  iso :: string

record daily_point =
  day :: string
  label :: string
  max_temp :: "rat option"
  min_temp :: "rat option"
  code :: "rat option"
  sunrise :: "string option"
  sunset :: "string option"

text \<open>\<^verbatim>\<open>data?.hourly?.f || []\<close> and \<^verbatim>\<open>data?.daily?.f || []\<close> for an array field \<open>f\<close>.\<close>

definition hourly_field :: "forecast option \<Rightarrow> (hourly_block \<Rightarrow> 'a list option) \<Rightarrow> 'a list" where
  "hourly_field data f =
     (case data of
        None \<Rightarrow> []
      | Some d \<Rightarrow> (case hourly d of
            None \<Rightarrow> []
          | Some h \<Rightarrow> (case f h of None \<Rightarrow> [] | Some xs \<Rightarrow> xs)))"

definition daily_field ::
  "forecast option \<Rightarrow> (daily_block \<Rightarrow> 'a field_value option) \<Rightarrow> 'a field_value" where
  "daily_field data f =
     (case data of
        None \<Rightarrow> Items []
      | Some d \<Rightarrow> (case daily d of
            None \<Rightarrow> Items []
          | Some h \<Rightarrow> (case f h of None \<Rightarrow> Items [] | Some v \<Rightarrow> v)))"

text \<open>\<open>v[i]\<close> for a field value: a scalar has no elements.\<close>

fun element :: "'a field_value \<Rightarrow> nat \<Rightarrow> 'a option" where
  "element (Items xs) i = at_index xs i"
| "element Scalar i = None"

text \<open>
  \<^verbatim>\<open>function formatTimeLabel(iso, locale) {
    try { const d = new Date(iso); return d.toLocaleTimeString(locale, {...}); }
    catch { return ""; } }\<close>
  and \<open>formatDayLabel\<close> likewise, with \<open>toLocaleDateString\<close>.
\<close>

definition formatTimeLabel :: "runtime \<Rightarrow> string \<Rightarrow> string \<Rightarrow> string" where
  "formatTimeLabel rt iso_s locale =
     (case to_locale_time_string rt iso_s locale of Some s \<Rightarrow> s | None \<Rightarrow> [])"

definition formatDayLabel :: "runtime \<Rightarrow> string \<Rightarrow> string \<Rightarrow> string" where
  "formatDayLabel rt iso_s locale =
     (case to_locale_date_string rt iso_s locale of Some s \<Rightarrow> s | None \<Rightarrow> [])"

text \<open>
  The first loop of \<open>buildHourlySeries\<close>:
  \<^verbatim>\<open>let startIdx = 0;
  for (let i = 0; i < times.length; i++) {
    const t = new Date(times[i]).getTime();
    if (t >= now) { startIdx = i; break; } }\<close>
  \<open>find_start rt times_a now i startIdx\<close> is the value of \<open>startIdx\<close> after the loop, when
  the loop is entered with the counter \<open>i\<close>.
\<close>

function find_start :: "runtime \<Rightarrow> string list \<Rightarrow> int option \<Rightarrow> nat \<Rightarrow> nat \<Rightarrow> nat" where
  "find_start rt times_a now i startIdx =
     (if i < length times_a then
        (if js_ge (date_parse rt (times_a ! i)) now then i
         else find_start rt times_a now (i + 1) startIdx)
      else startIdx)"
  by pat_completeness auto
termination
  by (relation "measure (\<lambda>(rt, times_a, now, i, startIdx). length times_a - i)") auto

declare find_start.simps [simp del]

text \<open>
  The second loop:
  \<^verbatim>\<open>const out = [];
  for (let i = startIdx; i < Math.min(times.length, startIdx + hours); i++) {
    out.push({ time: formatTimeLabel(times[i], locale), temp: temps[i], feels: feels[i],
               pop: pop[i], iso: times[i] }); }\<close>
\<close>

definition hourly_point_at ::
  "runtime \<Rightarrow> string \<Rightarrow> string list \<Rightarrow> rat list \<Rightarrow> rat list \<Rightarrow> rat list \<Rightarrow> nat \<Rightarrow> hourly_point" where
  "hourly_point_at rt locale times_a temps feels_a pop_a i =
     \<lparr> hourly_point.time = formatTimeLabel rt (times_a ! i) locale,
       temp = at_index temps i,
       feels = at_index feels_a i,
       pop = at_index pop_a i,
       iso = times_a ! i \<rparr>"

function push_points ::
  "(nat \<Rightarrow> hourly_point) \<Rightarrow> nat \<Rightarrow> nat \<Rightarrow> hourly_point list \<Rightarrow> hourly_point list" where
  "push_points mk i bound out =
     (if i < bound then push_points mk (i + 1) bound (out @ [mk i]) else out)"
  by pat_completeness auto
termination
  by (relation "measure (\<lambda>(mk, i, bound, out). bound - i)") auto

declare push_points.simps [simp del]

text \<open>
  \<^verbatim>\<open>function buildHourlySeries(data, nowISO, hours = 24, locale = "pt-BR")\<close>, with
  \<^verbatim>\<open>const now = nowISO ? new Date(nowISO).getTime() : Date.now();\<close>
  \<open>nowISO\<close> is a string or missing (the empty string is falsy as well); \<open>hours\<close> is a
  natural number.
\<close>

definition reference_instant :: "runtime \<Rightarrow> string option \<Rightarrow> int option" where
  "reference_instant rt nowISO =
     (case nowISO of
        None \<Rightarrow> Some (date_now rt)
      | Some s \<Rightarrow> if s = [] then Some (date_now rt) else date_parse rt s)"

definition buildHourlySeries ::
  "runtime \<Rightarrow> forecast option \<Rightarrow> string option \<Rightarrow> nat \<Rightarrow> string \<Rightarrow> hourly_point list" where
  "buildHourlySeries rt data nowISO hours locale =
     (let times_a = hourly_field data hourly_block.time;
          temps = hourly_field data temperature_2m;
          feels_a = hourly_field data apparent_temperature;
          pop_a = hourly_field data precipitation_probability;
          now = reference_instant rt nowISO;
          startIdx = find_start rt times_a now 0 0
      in push_points (hourly_point_at rt locale times_a temps feels_a pop_a)
           startIdx (min (length times_a) (startIdx + hours)) [])"

text \<open>
  \<^verbatim>\<open>label: formatDayLabel(day, locale).replace(/^./, (c) => c.toLocaleUpperCase(locale))\<close>:
  the pattern matches the first code unit unless it is a line terminator.
\<close>

fun upper_first :: "runtime \<Rightarrow> string \<Rightarrow> string \<Rightarrow> string" where
  "upper_first rt locale [] = []"
| "upper_first rt locale (c # cs) =
     (if of_char c \<in> {10, 13 :: nat} then c # cs
      else to_locale_upper_case rt [c] locale @ cs)"

text \<open>
  \<^verbatim>\<open>function buildDailySeries(data, locale = "pt-BR") {
    const t = data?.daily?.time || [];
    const max = data?.daily?.temperature_2m_max || []; ...
    return t.map((day, i) => ({ day, label: ..., max: max[i], min: min[i], code: code[i],
                                sunrise: sunrise[i], sunset: sunset[i] })); }\<close>
  When \<open>t\<close> is a scalar, \<open>t.map\<close> is \<open>undefined\<close> and the call throws a \<open>TypeError\<close>.
\<close>

definition buildDailySeries ::
  "runtime \<Rightarrow> forecast option \<Rightarrow> string \<Rightarrow> type_error + daily_point list" where
  "buildDailySeries rt data locale =
     (let t = daily_field data daily_block.time;
          max_a = daily_field data temperature_2m_max;
          min_a = daily_field data temperature_2m_min;
          code_a = daily_field data weather_code;
          sunrise_a = daily_field data daily_block.sunrise;
          sunset_a = daily_field data daily_block.sunset
      in case t of
           Scalar \<Rightarrow> Inl TypeError
         | Items days \<Rightarrow>
             Inr (map (\<lambda>(i, d).
                    \<lparr> day = d,
                      label = upper_first rt locale (formatDayLabel rt d locale),
                      max_temp = element max_a i,
                      min_temp = element min_a i,
                      code = element code_a i,
                      daily_point.sunrise = element sunrise_a i,
                      daily_point.sunset = element sunset_a i \<rparr>)
                   (enumerate 0 days)))"

section \<open>The three network boundaries\<close>

text \<open>
  What \<open>fetch(url)\<close> settles to: it rejects (a network error), or it resolves to a response
  with a status code and a body. The body is \<open>None\<close> when it is not JSON text, so that
  \<open>res.json()\<close> rejects, and \<open>Some data\<close> with the parsed value otherwise. A rejected promise
  of an \<open>async\<close> function is the \<open>Inl\<close> of a sum.
\<close>

datatype error = NetworkError | HttpError nat | JsonError

datatype 'a fetch_result = Failed | Response nat "'a option"

text \<open>
  \<^verbatim>\<open>async function fetchJson(url) {
    const res = await fetch(url);
    if (!res.ok) throw new Error(`HTTP ${res.status}`);
    return res.json(); }\<close>
  \<open>res.ok\<close> is true for the statuses 200 to 299.
\<close>

definition fetchJson :: "(string \<Rightarrow> 'a fetch_result) \<Rightarrow> string \<Rightarrow> error + 'a" where
  "fetchJson fetch url =
     (case fetch url of
        Failed \<Rightarrow> Inl NetworkError
      | Response status body \<Rightarrow>
          if \<not> (200 \<le> status \<and> status \<le> 299) then Inl (HttpError status)
          else (case body of None \<Rightarrow> Inl JsonError | Some data \<Rightarrow> Inr data))"

record geo_payload =
  results :: "raw_place option list option"

text \<open>
  \<^verbatim>\<open>async function geocode(query, count = 6, language = "pt") {
    const q = encodeURIComponent(query.trim());
    const url = `/wx-geo/v1/search?name=${q}&count=${count}&language=${language}&format=json`;
    const data = await fetchJson(url);
    return (data?.results || []).map(normalizePlace); }\<close>
\<close>

definition geocode_url :: "runtime \<Rightarrow> string \<Rightarrow> nat \<Rightarrow> string \<Rightarrow> string" where
  "geocode_url rt query count language =
     (let q = encodeURIComponent rt (trim query)
      in ''/wx-geo/v1/search?name='' @ q @ ''&count='' @ num_to_string rt (of_nat count)
         @ ''&language='' @ language @ ''&format=json'')"

definition geocode ::
  "runtime \<Rightarrow> (string \<Rightarrow> geo_payload option fetch_result) \<Rightarrow> string \<Rightarrow> nat \<Rightarrow> string
     \<Rightarrow> error + place option list" where
  "geocode rt fetch query count language =
     (let url = geocode_url rt query count language
      in case fetchJson fetch url of
           Inl e \<Rightarrow> Inl e
         | Inr data \<Rightarrow>
             Inr (map (normalizePlace rt)
                    (case data of
                       None \<Rightarrow> []
                     | Some d \<Rightarrow> (case results d of None \<Rightarrow> [] | Some rs \<Rightarrow> rs))))"

text \<open>
  The callback of the debounced search, the caller of \<open>geocode\<close>:
  \<^verbatim>\<open>try { const res = await geocode(query, 6, "pt");
        if (!alive) return; setSuggestions(res); }
  catch { if (!alive) return; setSuggestions([]); }\<close>
  The model is the value of the suggestions afterwards.
\<close>

definition debouncedSearch ::
  "runtime \<Rightarrow> (string \<Rightarrow> geo_payload option fetch_result) \<Rightarrow> string \<Rightarrow> bool
     \<Rightarrow> place option list \<Rightarrow> place option list" where
  "debouncedSearch rt fetch query alive suggestions =
     (case geocode rt fetch query 6 ''pt'' of
        Inr res \<Rightarrow> if \<not> alive then suggestions else res
      | Inl e \<Rightarrow> if \<not> alive then suggestions else [])"

record address =
  city :: "string option"
  town :: "string option"
  village :: "string option"
  county :: "string option"
  state :: "string option"
  country :: "string option"

record reverse_payload =
  address :: "address option"

text \<open>
  The default name \<^verbatim>\<open>"Minha localiza\u00e7\u00e3o"\<close>: its two letters outside ASCII are the
  code units E7 and E3.
\<close>

definition default_name :: string where
  "default_name = ''Minha localiza'' @ [CHR 0xE7, CHR 0xE3] @ ''o''"

text \<open>\<^verbatim>\<open>const a = data?.address || {};\<close>\<close>

definition address_or_empty :: "reverse_payload option \<Rightarrow> address" where
  "address_or_empty data =
     (let empty = \<lparr> city = None, town = None, village = None, county = None, state = None,
                     address.country = None \<rparr>
      in case data of
           None \<Rightarrow> empty
         | Some d \<Rightarrow> (case address d of None \<Rightarrow> empty | Some a \<Rightarrow> a))"

text \<open>
  \<^verbatim>\<open>async function reverseGeocodeOSM(lat, lon, language = "pt-BR") {
    const url = `https://nominatim.openstreetmap.org/reverse?format=jsonv2&lat=${lat}&lon=${lon}&accept-language=${language}`;
    const data = await fetchJson(url);
    const a = data?.address || {};
    const name = a.city || a.town || a.village || a.county || "Minha localiza\u00e7\u00e3o";
    const admin1 = a.state || "";
    const country = a.country || "";
    return [{ id: `osm:${lat},${lon}`, name, admin1, country,
              latitude: lat, longitude: lon, timezone: "auto" }]; }\<close>
\<close>

definition reverse_url :: "runtime \<Rightarrow> rat \<Rightarrow> rat \<Rightarrow> string \<Rightarrow> string" where
  "reverse_url rt lat lon language =
     ''https://nominatim.openstreetmap.org/reverse?format=jsonv2&lat='' @ num_to_string rt lat
     @ ''&lon='' @ num_to_string rt lon @ ''&accept-language='' @ language"

definition reverseGeocodeOSM ::
  "runtime \<Rightarrow> (string \<Rightarrow> reverse_payload option fetch_result) \<Rightarrow> rat \<Rightarrow> rat \<Rightarrow> string
     \<Rightarrow> error + place list" where
  "reverseGeocodeOSM rt fetch lat lon language =
     (let url = reverse_url rt lat lon language
      in case fetchJson fetch url of
           Inl e \<Rightarrow> Inl e
         | Inr data \<Rightarrow>
             let a = address_or_empty data;
                 name_v = or_else (city a) (or_else (town a) (or_else (village a)
                            (or_else (county a) default_name)));
                 admin1_v = or_else (state a) [];
                 country_v = or_else (address.country a) []
             in Inr [\<lparr> place.id_str = ''osm:'' @ num_to_string rt lat @ '','' @ num_to_string rt lon,
                        place.name = name_v,
                        place.admin1 = Some admin1_v,
                        place.country = Some country_v,
                        place.latitude = lat,
                        place.longitude = lon,
                        place.timezone = Some ''auto'' \<rparr>])"

text \<open>
  \<^verbatim>\<open>async function fetchForecast(place, unit = "metric") {
    const tempUnit = unit === "imperial" ? "fahrenheit" : "celsius";
    const windUnit = unit === "imperial" ? "mph" : "kmh";
    const params = new URLSearchParams({ latitude: String(place.latitude),
      longitude: String(place.longitude), timezone: place.timezone || "auto",
      temperature_unit: tempUnit, wind_speed_unit: windUnit,
      current: [...].join(","), hourly: [...].join(","), daily: [...].join(","),
      forecast_days: "7" });
    const url = `https://api.open-meteo.com/v1/forecast?${params.toString()}`;
    return fetchJson(url); }\<close>
  \<open>forecastParams\<close> is the list of the parameters, in the order of the object literal.
\<close>

definition forecastParams :: "runtime \<Rightarrow> place \<Rightarrow> string \<Rightarrow> (string \<times> string) list" where
  "forecastParams rt p unit =
     (let tempUnit = (if unit = ''imperial'' then ''fahrenheit'' else ''celsius'');
          windUnit = (if unit = ''imperial'' then ''mph'' else ''kmh'')
      in [(''latitude'', num_to_string rt (place.latitude p)),
          (''longitude'', num_to_string rt (place.longitude p)),
          (''timezone'', or_else (place.timezone p) ''auto''),
          (''temperature_unit'', tempUnit),
          (''wind_speed_unit'', windUnit),
          (''current'', join '','' [''temperature_2m'', ''relative_humidity_2m'',
             ''apparent_temperature'', ''weather_code'', ''wind_speed_10m'', ''visibility'',
             ''is_day'']),
          (''hourly'', join '','' [''temperature_2m'', ''apparent_temperature'',
             ''relative_humidity_2m'', ''weather_code'', ''wind_speed_10m'', ''visibility'',
             ''precipitation_probability'']),
          (''daily'', join '','' [''weather_code'', ''temperature_2m_max'',
             ''temperature_2m_min'', ''sunrise'', ''sunset'']),
          (''forecast_days'', ''7'')])"

definition forecast_url :: "runtime \<Rightarrow> place \<Rightarrow> string \<Rightarrow> string" where
  "forecast_url rt p unit =
     ''https://api.open-meteo.com/v1/forecast?'' @ params_to_string rt (forecastParams rt p unit)"

definition fetchForecast ::
  "runtime \<Rightarrow> (string \<Rightarrow> 'a fetch_result) \<Rightarrow> place \<Rightarrow> string \<Rightarrow> error + 'a" where
  "fetchForecast rt fetch p unit = fetchJson fetch (forecast_url rt p unit)"

section \<open>Notions used to state and prove the properties\<close>

text \<open>
  Rounding as the specification words it: \<open>round_to f x\<close> is \<open>x\<close> rounded to \<open>f\<close> decimal
  places, to the nearest value, a tie away from zero (the rule \<open>toFixed\<close> follows).
\<close>

definition round_to :: "nat \<Rightarrow> rat \<Rightarrow> rat" where
  "round_to f x = sgn x * of_nat (nearest f \<bar>x\<bar>) / 10 ^ f"

text \<open>
  A place whose coordinates \<open>toFixed\<close> prints in fixed notation: their magnitude is below
  \<open>10^21\<close>. Every latitude in \<open>[-90, 90]\<close> and longitude in \<open>[-180, 180]\<close> is.
\<close>

definition fixed_notation :: "place \<Rightarrow> bool" where
  "fixed_notation p = (\<bar>place.latitude p\<bar> < 10 ^ 21 \<and> \<bar>place.longitude p\<bar> < 10 ^ 21)"

text \<open>
  Reading a printed number back: the digits among the code units, the number a string of
  digits denotes, and the digits \<open>toFixed\<close> prints for \<open>n\<close> when \<open>f\<close> of them follow the
  decimal point.
\<close>

definition is_digit :: "char \<Rightarrow> bool" where
  "is_digit c = (48 \<le> (of_char c :: nat) \<and> (of_char c :: nat) \<le> 57)"

definition digits_value :: "string \<Rightarrow> nat" where
  "digits_value s = foldl (\<lambda>a c. 10 * a + (of_char c - 48)) 0 s"

definition padded :: "nat \<Rightarrow> nat \<Rightarrow> string" where
  "padded f n =
     (let m = decimal n
      in if length m \<le> f then replicate (f + 1 - length m) (CHR ''0'') @ m else m)"

text \<open>
  The number of timestamps at the head of the array that are not at or after the reference
  instant: when one is at or after it, this is the index of the first such.
\<close>

definition first_at_or_after :: "runtime \<Rightarrow> string list \<Rightarrow> int option \<Rightarrow> nat" where
  "first_at_or_after rt times_a now =
     length (takeWhile (\<lambda>t. \<not> js_ge (date_parse rt t) now) times_a)"

section \<open>Example inputs\<close>

text \<open>
  The place the application selects when none is stored
  (\<^verbatim>\<open>{ id: "default-sp", name: "S\u00e3o Paulo", admin1: "SP", country: "Brasil",
  latitude: -23.5505, longitude: -46.6333, timezone: "America/Sao_Paulo" }\<close>), a place with
  given coordinates, the place \<open>n\<close> degrees north on the prime meridian, and an example
  runtime: it prints the numbers and parses the dates of the examples below, and formats a
  time as its hour and minute. They serve to evaluate the functions above at concrete
  inputs; the general theorems do not depend on them.
\<close>

definition default_place :: place where
  "default_place =
     \<lparr> place.id_str = ''default-sp'',
       place.name = ''S'' @ [CHR 0xE3] @ ''o Paulo'',
       place.admin1 = Some ''SP'',
       place.country = Some ''Brasil'',
       place.latitude = - 235505 / 10000,
       place.longitude = - 466333 / 10000,
       place.timezone = Some ''America/Sao_Paulo'' \<rparr>"

definition place_at :: "rat \<Rightarrow> rat \<Rightarrow> place" where
  "place_at lat lon =
     \<lparr> place.id_str = ''example'',
       place.name = ''Example'',
       place.admin1 = None,
       place.country = None,
       place.latitude = lat,
       place.longitude = lon,
       place.timezone = None \<rparr>"

definition example_place :: "nat \<Rightarrow> place" where
  "example_place n = place_at (of_nat n) 0"

definition example_numbers :: "(rat \<times> string) list" where
  "example_numbers =
     [(- 235505 / 10000, ''-23.5505''), (- 466333 / 10000, ''-46.6333''),
      (0, ''0''), (6, ''6''), (10, ''10''), (20, ''20'')]"

definition example_dates :: "(string \<times> int) list" where
  "example_dates =
     [(''2024-05-01T00:00Z'', 1714521600000), (''2024-05-01T01:00Z'', 1714525200000),
      (''2024-05-01T02:00Z'', 1714528800000), (''2024-05-01T03:00Z'', 1714532400000),
      (''2024-05-01T04:00Z'', 1714536000000), (''2024-05-01T05:00Z'', 1714539600000),
      (''2024-05-01T06:00Z'', 1714543200000), (''2024-05-01T07:00Z'', 1714546800000)]"

definition example_runtime :: runtime where
  "example_runtime =
     \<lparr> num_to_string = (\<lambda>x. case map_of example_numbers x of Some s \<Rightarrow> s | None \<Rightarrow> ''?''),
       encodeURIComponent = (\<lambda>s. s),
       params_to_string = (\<lambda>ps. join ''&'' (map (\<lambda>(k, v). k @ ''='' @ v) ps)),
       date_parse = map_of example_dates,
       date_now = 1714528800000,
       to_locale_time_string = (\<lambda>iso_s locale. Some (take 5 (drop 11 iso_s))),
       to_locale_date_string = (\<lambda>iso_s locale. Some ''qua.''),
       to_locale_upper_case = (\<lambda>s locale. if s = ''q'' then ''Q'' else s) \<rparr>"

definition example_raw_place :: raw_place where
  "example_raw_place =
     \<lparr> raw_place.id_str = None,
       raw_place.name = ''Recife'',
       raw_place.admin1 = Some ''Pernambuco'',
       raw_place.country = Some ''Brasil'',
       raw_place.latitude = 20,
       raw_place.longitude = 10,
       raw_place.timezone = Some ''America/Recife'' \<rparr>"

definition example_hours :: "string list" where
  "example_hours = map fst (take 6 example_dates)"

definition example_forecast :: forecast where
  "example_forecast =
     \<lparr> hourly = Some \<lparr> hourly_block.time = Some example_hours,
                        temperature_2m = Some [20, 19, 18, 17, 16, 15],
                        apparent_temperature = Some [21, 20, 19, 18, 17, 16],
                        precipitation_probability = None \<rparr>,
       daily = None \<rparr>"

text \<open>
  A forecast with a daily block of three days, in which the array of maxima is one entry
  short and the arrays of minima and of sunsets are missing; and a response whose daily
  time field is the number 7.
\<close>

definition example_week :: forecast where
  "example_week =
     \<lparr> hourly = hourly example_forecast,
       daily = Some \<lparr> daily_block.time = Some (Items [''2024-05-01'', ''2024-05-02'', ''2024-05-03'']),
                       temperature_2m_max = Some (Items [25, 26]),
                       temperature_2m_min = None,
                       weather_code = Some (Items [3, 61, 0]),
                       daily_block.sunrise = Some (Items [''2024-05-01T06:10'', ''2024-05-02T06:11'',
                                                          ''2024-05-03T06:11'']),
                       daily_block.sunset = None \<rparr> \<rparr>"

definition example_scalar_time :: forecast where
  "example_scalar_time =
     \<lparr> hourly = None,
       daily = Some \<lparr> daily_block.time = Some Scalar,
                       temperature_2m_max = None,
                       temperature_2m_min = None,
                       weather_code = None,
                       daily_block.sunrise = None,
                       daily_block.sunset = None \<rparr> \<rparr>"

section \<open>What \<open>toFixed\<close> prints\<close>

text \<open>
  \<open>nearest\<close> is the integer ECMAScript asks for: no integer \<open>k\<close> has \<open>k / 10^f\<close> closer to
  \<open>x\<close>, and an integer that is as close is not larger.
\<close>

lemma nearest_scaled:
  assumes "0 \<le> y"
  shows "\<bar>of_int \<lfloor>y + 1 / 2\<rfloor> - y\<bar> \<le> \<bar>of_int k - (y::rat)\<bar>"
    and "\<bar>of_int k - y\<bar> = \<bar>of_int \<lfloor>y + 1 / 2\<rfloor> - y\<bar> \<Longrightarrow> k \<le> \<lfloor>y + 1 / 2\<rfloor>"
proof -
  let ?m = "\<lfloor>y + 1 / 2\<rfloor>"
  have lo: "of_int ?m \<le> y + 1 / 2" by (rule of_int_floor_le)
  have hi: "y + 1 / 2 < of_int ?m + 1" by linarith
  have above: "of_int ?m + 1 \<le> (of_int k :: rat)" if "?m < k"
  proof -
    have "?m + 1 \<le> k" using that by simp
    then have "(of_int (?m + 1) :: rat) \<le> of_int k" by (simp only: of_int_le_iff)
    then show ?thesis by simp
  qed
  have below: "(of_int k :: rat) \<le> of_int ?m - 1" if "k < ?m"
  proof -
    have "k \<le> ?m - 1" using that by simp
    then have "(of_int k :: rat) \<le> of_int (?m - 1)" by (simp only: of_int_le_iff)
    then show ?thesis by simp
  qed
  show "\<bar>of_int ?m - y\<bar> \<le> \<bar>of_int k - y\<bar>"
  proof (cases k ?m rule: linorder_cases)
    case less then show ?thesis using below [OF less] lo hi by linarith
  next
    case equal then show ?thesis by simp
  next
    case greater then show ?thesis using above [OF greater] lo hi by linarith
  qed
  show "k \<le> ?m" if "\<bar>of_int k - y\<bar> = \<bar>of_int ?m - y\<bar>"
  proof (rule ccontr)
    assume "\<not> k \<le> ?m"
    then have "?m < k" by simp
    then have "of_int ?m + 1 \<le> (of_int k :: rat)" by (rule above)
    then show False using lo hi that by linarith
  qed
qed

lemma nearest_closest:
  assumes "0 \<le> x"
  shows "\<bar>of_nat (nearest f x) / 10 ^ f - x\<bar> \<le> \<bar>of_int k / 10 ^ f - x\<bar>"
    and "\<bar>of_int k / 10 ^ f - x\<bar> = \<bar>of_nat (nearest f x) / 10 ^ f - x\<bar> \<Longrightarrow> k \<le> int (nearest f x)"
proof -
  let ?y = "x * 10 ^ f"
  have y: "0 \<le> ?y" using assms by simp
  have m: "0 \<le> \<lfloor>?y + 1 / 2\<rfloor>" using y by simp
  have n: "(of_nat (nearest f x) :: rat) = of_int \<lfloor>?y + 1 / 2\<rfloor>"
    using m by (simp add: nearest_def)
  have scale: "\<bar>a / 10 ^ f - x\<bar> = \<bar>a - ?y\<bar> / 10 ^ f" for a :: rat
  proof -
    have "a / 10 ^ f - x = (a - ?y) / 10 ^ f" by (simp add: diff_divide_distrib)
    then show ?thesis by (simp only: abs_divide) simp
  qed
  show "\<bar>of_nat (nearest f x) / 10 ^ f - x\<bar> \<le> \<bar>of_int k / 10 ^ f - x\<bar>"
    unfolding scale n using nearest_scaled(1) [OF y, of k]
    by (simp add: divide_right_mono)
  show "k \<le> int (nearest f x)" if "\<bar>of_int k / 10 ^ f - x\<bar> = \<bar>of_nat (nearest f x) / 10 ^ f - x\<bar>"
  proof -
    have "\<bar>of_int k - ?y\<bar> = \<bar>of_int \<lfloor>?y + 1 / 2\<rfloor> - ?y\<bar>"
      using that unfolding scale n by simp
    then have "k \<le> \<lfloor>?y + 1 / 2\<rfloor>" by (rule nearest_scaled(2) [OF y])
    then show ?thesis using m by (simp add: nearest_def)
  qed
qed

lemma of_char_digit_char: "d < 10 \<Longrightarrow> of_char (digit_char d) = 48 + d"
  by (simp add: digit_char_def)

lemma digit_char_0: "digit_char 0 = CHR ''0''"
proof -
  have "of_char (digit_char 0) = (of_char (CHR ''0'') :: nat)"
    by (simp add: of_char_digit_char)
  then show ?thesis by (simp only: of_char_eq_iff)
qed

lemma is_digit_digit_char: "d < 10 \<Longrightarrow> is_digit (digit_char d)"
  by (simp add: is_digit_def of_char_digit_char)

lemma decimal_digits: "c \<in> set (decimal n) \<Longrightarrow> is_digit c"
proof (induction n rule: decimal.induct)
  case (1 n)
  show ?case
  proof (cases "n < 10")
    case True
    then show ?thesis using "1.prems" by (simp add: decimal.simps [of n] is_digit_digit_char)
  next
    case False
    then have "c \<in> set (decimal (n div 10)) \<or> c = digit_char (n mod 10)"
      using "1.prems" by (auto simp: decimal.simps [of n])
    then show ?thesis using "1.IH" False by (auto simp: is_digit_digit_char)
  qed
qed

lemma decimal_0: "decimal 0 = ''0''"
  by (simp add: decimal.simps [of 0] digit_char_0)

lemma decimal_nonempty: "decimal n \<noteq> []"
  by (simp add: decimal.simps [of n])

lemma digits_value_append:
  "digits_value (s @ t) = foldl (\<lambda>a c. 10 * a + (of_char c - 48)) (digits_value s) t"
  by (simp add: digits_value_def)

lemma digits_value_decimal: "digits_value (decimal n) = n"
proof (induction n rule: decimal.induct)
  case (1 n)
  show ?case
  proof (cases "n < 10")
    case True
    then show ?thesis
      by (simp add: decimal.simps [of n] digits_value_def of_char_digit_char)
  next
    case False
    then have "digits_value (decimal n) = 10 * digits_value (decimal (n div 10)) + n mod 10"
      by (simp add: decimal.simps [of n] digits_value_append of_char_digit_char)
    then show ?thesis using "1.IH" False by simp
  qed
qed

lemma digits_value_zeros: "digits_value (replicate k (CHR ''0'')) = 0"
  by (induction k) (simp_all add: digits_value_def)

lemma digits_value_padded: "digits_value (padded f n) = n"
proof -
  have "digits_value (replicate k (CHR ''0'') @ decimal n) = n" for k
    using digits_value_decimal [of n]
    by (simp add: digits_value_append digits_value_zeros) (simp add: digits_value_def)
  then show ?thesis by (simp add: padded_def Let_def digits_value_decimal)
qed

lemma padded_digits: "c \<in> set (padded f n) \<Longrightarrow> is_digit c"
  by (auto simp: padded_def Let_def is_digit_def dest: decimal_digits split: if_splits)

lemma length_padded: "f < length (padded f n)"
  by (simp add: padded_def Let_def)

lemma toFixed_fixed:
  assumes "\<bar>x\<bar> < 10 ^ 21" and "f \<noteq> 0"
  shows "toFixed rt x f =
           (if x < 0 then ''-'' else []) @
           take (length (padded f (nearest f \<bar>x\<bar>)) - f) (padded f (nearest f \<bar>x\<bar>)) @ ''.'' @
           drop (length (padded f (nearest f \<bar>x\<bar>)) - f) (padded f (nearest f \<bar>x\<bar>))"
proof -
  have m: "(if n = 0 then ''0'' else decimal n) = decimal n" for n
    by (simp add: decimal_0)
  have small: "\<not> 10 ^ 21 \<le> (if x < 0 then - x else x)"
    using assms(1) by (simp add: abs_if split: if_splits)
  have ab: "(if x < 0 then - x else x) = \<bar>x\<bar>" by (simp add: abs_if)
  show ?thesis
    unfolding toFixed_def Let_def m ab
    using assms small unfolding ab
    by (simp add: padded_def Let_def)
qed


lemma not_digit_marks:
  "\<not> is_digit (CHR ''.'')" "\<not> is_digit (CHR ''-'')" "\<not> is_digit (CHR '':'')"
  by (simp_all add: is_digit_def)

lemma filter_digits_padded: "filter is_digit (padded f n) = padded f n"
  by (simp add: padded_digits)

lemma toFixed_digits:
  assumes "\<bar>x\<bar> < 10 ^ 21" and "f \<noteq> 0"
  shows "filter is_digit (toFixed rt x f) = padded f (nearest f \<bar>x\<bar>)"
proof -
  let ?m = "padded f (nearest f \<bar>x\<bar>)"
  let ?j = "length ?m - f"
  have "filter is_digit (toFixed rt x f)
          = filter is_digit (take ?j ?m) @ filter is_digit (drop ?j ?m)"
    by (simp add: toFixed_fixed [OF assms] not_digit_marks)
  also have "\<dots> = filter is_digit (take ?j ?m @ drop ?j ?m)"
    by (simp only: filter_append)
  also have "\<dots> = filter is_digit ?m"
    by (simp only: append_take_drop_id)
  finally show ?thesis by (simp only: filter_digits_padded)
qed

lemma toFixed_value:
  assumes "\<bar>x\<bar> < 10 ^ 21" and "f \<noteq> 0"
  shows "digits_value (filter is_digit (toFixed rt x f)) = nearest f \<bar>x\<bar>"
  by (simp add: toFixed_digits [OF assms] digits_value_padded)

lemma padded_marks:
  "CHR ''-'' \<notin> set (padded f n)" "CHR '':'' \<notin> set (padded f n)"
  using padded_digits not_digit_marks by blast+

lemma toFixed_sign:
  assumes "\<bar>x\<bar> < 10 ^ 21" and "f \<noteq> 0"
  shows "(CHR ''-'' \<in> set (toFixed rt x f)) = (x < 0)"
  using padded_marks(1) [of f "nearest f \<bar>x\<bar>"]
  by (auto simp: toFixed_fixed [OF assms] dest: in_set_takeD in_set_dropD)

lemma toFixed_no_colon:
  assumes "\<bar>x\<bar> < 10 ^ 21" and "f \<noteq> 0"
  shows "CHR '':'' \<notin> set (toFixed rt x f)"
  using padded_marks(2) [of f "nearest f \<bar>x\<bar>"]
  by (auto simp: toFixed_fixed [OF assms] dest: in_set_takeD in_set_dropD)

lemma toFixed_eq_iff:
  assumes "\<bar>x\<bar> < 10 ^ 21" and "\<bar>y\<bar> < 10 ^ 21" and "f \<noteq> 0"
  shows "(toFixed rt x f = toFixed rt y f) =
           ((x < 0) = (y < 0) \<and> nearest f \<bar>x\<bar> = nearest f \<bar>y\<bar>)"
proof
  assume eq: "toFixed rt x f = toFixed rt y f"
  have "(x < 0) = (y < 0)"
    using toFixed_sign [OF assms(1,3), of rt] toFixed_sign [OF assms(2,3), of rt] eq by simp
  moreover have "nearest f \<bar>x\<bar> = nearest f \<bar>y\<bar>"
    using toFixed_value [OF assms(1,3), of rt] toFixed_value [OF assms(2,3), of rt] eq by simp
  ultimately show "(x < 0) = (y < 0) \<and> nearest f \<bar>x\<bar> = nearest f \<bar>y\<bar>" ..
next
  assume "(x < 0) = (y < 0) \<and> nearest f \<bar>x\<bar> = nearest f \<bar>y\<bar>"
  then show "toFixed rt x f = toFixed rt y f"
    by (simp add: toFixed_fixed [OF assms(1,3)] toFixed_fixed [OF assms(2,3)])
qed

lemma takeWhile_until: "c \<notin> set a \<Longrightarrow> takeWhile (\<lambda>x. x \<noteq> c) (a @ c # b) = a"
  by (induction a) auto

lemma key_split:
  assumes "CHR '':'' \<notin> set a" and "CHR '':'' \<notin> set a'"
  shows "(a @ '':'' @ b = a' @ '':'' @ b') = (a = a' \<and> b = b')"
proof
  assume eq: "a @ '':'' @ b = a' @ '':'' @ b'"
  have "takeWhile (\<lambda>c. c \<noteq> CHR '':'') (a @ '':'' @ b) = a"
    using assms(1) by (simp add: takeWhile_until)
  moreover have "takeWhile (\<lambda>c. c \<noteq> CHR '':'') (a' @ '':'' @ b') = a'"
    using assms(2) by (simp add: takeWhile_until)
  ultimately have "a = a'" using eq by simp
  then show "a = a' \<and> b = b'" using eq by simp
qed simp

lemma isSamePlace_fixed:
  assumes "fixed_notation a" and "fixed_notation b"
  shows "isSamePlace rt (Some a) (Some b) =
           ((place.latitude a < 0) = (place.latitude b < 0)
            \<and> nearest 4 \<bar>place.latitude a\<bar> = nearest 4 \<bar>place.latitude b\<bar>
            \<and> (place.longitude a < 0) = (place.longitude b < 0)
            \<and> nearest 4 \<bar>place.longitude a\<bar> = nearest 4 \<bar>place.longitude b\<bar>)"
proof -
  have ra: "\<bar>place.latitude a\<bar> < 10 ^ 21" "\<bar>place.longitude a\<bar> < 10 ^ 21"
    using assms(1) by (simp_all add: fixed_notation_def)
  have rb: "\<bar>place.latitude b\<bar> < 10 ^ 21" "\<bar>place.longitude b\<bar> < 10 ^ 21"
    using assms(2) by (simp_all add: fixed_notation_def)
  have four: "(4::nat) \<noteq> 0" by simp
  have "isSamePlace rt (Some a) (Some b) =
          (toFixed rt (place.latitude a) 4 = toFixed rt (place.latitude b) 4
           \<and> toFixed rt (place.longitude a) 4 = toFixed rt (place.longitude b) 4)"
    unfolding isSamePlace.simps(1) Let_def
    by (rule key_split) (rule toFixed_no_colon [OF ra(1) four], rule toFixed_no_colon [OF rb(1) four])
  then show ?thesis
    by (simp add: toFixed_eq_iff [OF ra(1) rb(1) four] toFixed_eq_iff [OF ra(2) rb(2) four])
qed

lemma nearest_eqI:
  assumes "of_nat n \<le> x * 10 ^ f + 1 / 2" and "x * 10 ^ f + 1 / 2 < of_nat n + 1"
  shows "nearest f x = n"
proof -
  have "\<lfloor>x * 10 ^ f + 1 / 2\<rfloor> = int n"
    using assms by (intro floor_unique) simp_all
  then show ?thesis by (simp add: nearest_def)
qed

lemma nearest_of_nat: "nearest f (of_nat k) = k * 10 ^ f"
  by (rule nearest_eqI) simp_all

lemma round_to_eq_iff:
  assumes "(x < 0) = (y < 0)"
  shows "(round_to f x = round_to f y) = (nearest f \<bar>x\<bar> = nearest f \<bar>y\<bar>)"
proof -
  have zero: "nearest f 0 = 0" using nearest_of_nat [of f 0] by simp
  consider "x < 0" "y < 0" | "x = 0" "y = 0" | "x = 0" "0 < y" | "0 < x" "y = 0" | "0 < x" "0 < y"
    using assms by (cases x "0::rat" rule: linorder_cases; cases y "0::rat" rule: linorder_cases) auto
  then show ?thesis
    by cases (auto simp: round_to_def zero)
qed

section \<open>Place equality\<close>

lemma valid_coordinates_fixed:
  assumes "\<bar>place.latitude p\<bar> \<le> 90" and "\<bar>place.longitude p\<bar> \<le> 180"
  shows "fixed_notation p"
proof -
  have "(90::rat) < 10 ^ 21" "(180::rat) < 10 ^ 21" by simp_all
  then show ?thesis using assms unfolding fixed_notation_def by (meson le_less_trans)
qed

lemma example_place_fixed: "n < 1000 \<Longrightarrow> fixed_notation (example_place n)"
proof -
  assume "n < 1000"
  then have "(of_nat n :: rat) < of_nat 1000" by (simp only: of_nat_less_iff)
  then have "(of_nat n :: rat) < 10 ^ 21" by simp
  then show ?thesis by (simp add: fixed_notation_def example_place_def place_at_def)
qed

lemma same_example_place:
  assumes "m < 1000" and "n < 1000"
  shows "isSamePlace rt (Some (example_place m)) (Some (example_place n)) = (m = n)"
  using isSamePlace_fixed [OF example_place_fixed [OF assms(1)] example_place_fixed [OF assms(2)], of rt]
  by (simp add: example_place_def place_at_def nearest_of_nat)

text \<open>
  C1, as stated: two places are the same if and only if their latitudes round to the same
  value at 4 decimal places and their longitudes do. It fails for two places on either
  side of the equator, at latitudes \<open>-1/65536\<close> and \<open>1/65536\<close> degrees (both are doubles):
  both latitudes round to zero, under any rule of rounding to the nearest, yet the keys
  differ, \<open>"-0.0000:0.0000"\<close> against \<open>"0.0000:0.0000"\<close>, since \<open>toFixed\<close> keeps the sign of a
  negative number that rounds to zero.
\<close>

theorem isSamePlace_rounding_counterexample:
  "\<not> (isSamePlace example_runtime (Some (place_at (- 1 / 65536) 0)) (Some (place_at (1 / 65536) 0))
       = (round_to 4 (place.latitude (place_at (- 1 / 65536) 0))
            = round_to 4 (place.latitude (place_at (1 / 65536) 0))
          \<and> round_to 4 (place.longitude (place_at (- 1 / 65536) 0))
            = round_to 4 (place.longitude (place_at (1 / 65536) 0))))"
proof -
  have zero: "nearest 4 (1 / 65536) = 0"
    by (rule nearest_eqI) simp_all
  have "fixed_notation (place_at (- 1 / 65536) 0)" "fixed_notation (place_at (1 / 65536) 0)"
    by (simp_all add: fixed_notation_def place_at_def)
  then have "\<not> isSamePlace example_runtime (Some (place_at (- 1 / 65536) 0))
               (Some (place_at (1 / 65536) 0))"
    by (simp add: isSamePlace_fixed place_at_def)
  then show ?thesis
    by (simp add: round_to_def place_at_def zero)
qed

text \<open>
  C1, amended. For two places with coordinates that are printed in fixed notation (every
  valid latitude and longitude is), \<open>isSamePlace\<close> returns true if and only if the
  latitudes round to the same value at 4 decimal places and are both negative or both not
  negative, and the longitudes likewise.
\<close>

theorem isSamePlace_rounding:
  assumes "fixed_notation a" and "fixed_notation b"
  shows "isSamePlace rt (Some a) (Some b) =
           (round_to 4 (place.latitude a) = round_to 4 (place.latitude b)
            \<and> (place.latitude a < 0) = (place.latitude b < 0)
            \<and> round_to 4 (place.longitude a) = round_to 4 (place.longitude b)
            \<and> (place.longitude a < 0) = (place.longitude b < 0))"
  using isSamePlace_fixed [OF assms, of rt] round_to_eq_iff [of "place.latitude a" "place.latitude b" 4]
    round_to_eq_iff [of "place.longitude a" "place.longitude b" 4]
  by auto

theorem isSamePlace_rounding_witness:
  "fixed_notation default_place
   \<and> fixed_notation (place_at (- 2355051 / 100000) (- 4663329 / 100000))
   \<and> isSamePlace example_runtime (Some default_place)
        (Some (place_at (- 2355051 / 100000) (- 4663329 / 100000)))"
proof -
  let ?b = "place_at (- 2355051 / 100000) (- 4663329 / 100000)"
  have fa: "fixed_notation default_place"
    by (simp add: fixed_notation_def default_place_def)
  have fb: "fixed_notation ?b"
    by (simp add: fixed_notation_def place_at_def)
  have n1: "nearest 4 \<bar>place.latitude default_place\<bar> = 235505"
    by (rule nearest_eqI) (simp_all add: default_place_def)
  have n2: "nearest 4 \<bar>place.latitude ?b\<bar> = 235505"
    by (rule nearest_eqI) (simp_all add: place_at_def)
  have n3: "nearest 4 \<bar>place.longitude default_place\<bar> = 466333"
    by (rule nearest_eqI) (simp_all add: default_place_def)
  have n4: "nearest 4 \<bar>place.longitude ?b\<bar> = 466333"
    by (rule nearest_eqI) (simp_all add: place_at_def)
  have sg: "sgn (place.latitude default_place) = sgn (place.latitude ?b)"
      "sgn (place.longitude default_place) = sgn (place.longitude ?b)"
    by (simp_all add: default_place_def place_at_def)
  have "round_to 4 (place.latitude default_place) = round_to 4 (place.latitude ?b)"
    unfolding round_to_def n1 n2 sg ..
  moreover have "round_to 4 (place.longitude default_place) = round_to 4 (place.longitude ?b)"
    unfolding round_to_def n3 n4 sg ..
  moreover have "place.latitude default_place < 0" "place.latitude ?b < 0"
      "place.longitude default_place < 0" "place.longitude ?b < 0"
    by (simp_all add: default_place_def place_at_def)
  ultimately show ?thesis
    using isSamePlace_rounding [OF fa fb, of example_runtime] fa fb by simp
qed

section \<open>Properties of the favorites list\<close>

lemma isSamePlace_refl [simp]: "isSamePlace rt (Some q) (Some q)"
  by (simp add: isSamePlace.simps(1))

lemma toggle_absent:
  "\<not> isFavorite rt favs (Some q) \<Longrightarrow> toggleFavorite rt (Some q) favs = take 12 (q # favs)"
  by (simp add: toggleFavorite_def isFavorite_def)

lemma toggle_present:
  "isFavorite rt favs (Some q) \<Longrightarrow>
   toggleFavorite rt (Some q) favs = filter (\<lambda>f. \<not> isSamePlace rt (Some f) (Some q)) favs"
  by (simp add: toggleFavorite_def isFavorite_def)

lemma take_12_Cons: "take 12 (q # favs) = q # take 11 favs"
  by (simp add: take_Cons')

lemma filter_absent:
  "\<not> isFavorite rt favs (Some q) \<Longrightarrow>
   filter (\<lambda>f. \<not> isSamePlace rt (Some f) (Some q)) favs = favs"
  by (simp add: isFavorite_def list_ex_iff)

lemma isFavorite_filtered:
  "\<not> isFavorite rt (filter (\<lambda>f. \<not> isSamePlace rt (Some f) (Some q)) favs) (Some q)"
  by (simp add: isFavorite_def list_ex_iff)

lemma isFavorite_take: "\<not> isFavorite rt favs p \<Longrightarrow> \<not> isFavorite rt (take n favs) p"
  by (auto simp: isFavorite_def list_ex_iff dest: in_set_takeD)

lemma isFavorite_Cons: "isFavorite rt (q # favs) (Some q)"
  by (simp add: isFavorite_def)

lemma toggle_twice_absent:
  assumes "\<not> isFavorite rt favs (Some q)"
  shows "toggleFavorite rt (Some q) (toggleFavorite rt (Some q) favs) = take 11 favs"
proof -
  have first: "toggleFavorite rt (Some q) favs = q # take 11 favs"
    using assms by (simp add: toggle_absent take_12_Cons)
  have rest: "\<not> isFavorite rt (take 11 favs) (Some q)"
    using assms by (rule isFavorite_take)
  have "toggleFavorite rt (Some q) (q # take 11 favs)
          = filter (\<lambda>f. \<not> isSamePlace rt (Some f) (Some q)) (q # take 11 favs)"
    by (rule toggle_present) (rule isFavorite_Cons)
  also have "\<dots> = take 11 favs"
    using filter_absent [OF rest] by simp
  finally show ?thesis using first by simp
qed

lemma toggle_twice_present:
  assumes "isFavorite rt favs (Some q)"
  shows "toggleFavorite rt (Some q) (toggleFavorite rt (Some q) favs)
           = q # take 11 (filter (\<lambda>f. \<not> isSamePlace rt (Some f) (Some q)) favs)"
proof -
  let ?rest = "filter (\<lambda>f. \<not> isSamePlace rt (Some f) (Some q)) favs"
  have "toggleFavorite rt (Some q) ?rest = q # take 11 ?rest"
    using isFavorite_filtered [of rt q favs] by (simp add: toggle_absent take_12_Cons)
  then show ?thesis using assms by (simp add: toggle_present)
qed

lemma example_places_absent:
  assumes "k < 1000" and "\<forall>n \<in> set ns. n < 1000 \<and> n \<noteq> k"
  shows "\<not> isFavorite rt (map example_place ns) (Some (example_place k))"
  using assms by (auto simp: isFavorite_def list_ex_iff same_example_place)

text \<open>
  C9. When one of its arguments is null, \<open>isSamePlace\<close> returns false, also for two nulls.
  So while no current place is selected, \<open>isFavorite\<close> is false whatever the favorites are,
  and no chip of a favorite is drawn active.
\<close>

theorem isSamePlace_null:
  "(a = None \<or> b = None \<longrightarrow> \<not> isSamePlace rt a b)
   \<and> \<not> isSamePlace rt None None
   \<and> \<not> isFavorite rt favorites None
   \<and> \<not> chipActive rt None p"
proof -
  have "\<not> isSamePlace rt a None" for a by (cases a) simp_all
  moreover have "\<not> isSamePlace rt None b" for b by simp
  ultimately show ?thesis
    by (auto simp: isFavorite_def chipActive_def list_ex_iff)
qed

theorem isSamePlace_null_witness:
  "\<not> isSamePlace example_runtime None (Some default_place)
   \<and> \<not> isSamePlace example_runtime None None
   \<and> \<not> isFavorite example_runtime [default_place] None
   \<and> \<not> chipActive example_runtime None default_place"
  using isSamePlace_null [of None "Some default_place" example_runtime "[default_place]"
      default_place]
  by simp

text \<open>
  C5. Toggling a place on a favorites list of at most 12 entries gives a list of at most 12
  entries. On a list of exactly 12 entries none of which is the place, the result is the
  place followed by the first 11 entries: the last one is dropped, and the order is kept.
\<close>

theorem toggleFavorite_bounded:
  assumes "length favs \<le> 12"
  shows "length (toggleFavorite rt p favs) \<le> 12
         \<and> (\<forall>q. p = Some q \<and> length favs = 12 \<and> \<not> isFavorite rt favs p
                \<longrightarrow> toggleFavorite rt p favs = q # butlast favs)"
proof (cases p)
  case None
  then show ?thesis using assms by (simp add: toggleFavorite_def)
next
  case (Some q)
  show ?thesis
  proof (cases "isFavorite rt favs (Some q)")
    case True
    have "length (filter (\<lambda>f. \<not> isSamePlace rt (Some f) (Some q)) favs) \<le> length favs"
      by (rule length_filter_le)
    then have "length (filter (\<lambda>f. \<not> isSamePlace rt (Some f) (Some q)) favs) \<le> 12"
      using assms by (rule order_trans)
    then show ?thesis using True Some by (simp add: toggle_present)
  next
    case False
    have "length favs = 12 \<Longrightarrow> take 11 favs = butlast favs"
      by (simp add: butlast_conv_take)
    then show ?thesis using False Some by (simp add: toggle_absent take_12_Cons)
  qed
qed

theorem toggleFavorite_bounded_witness:
  "length (map example_place [1..<13]) \<le> 12
   \<and> length (toggleFavorite example_runtime (Some (example_place 13))
               (map example_place [1..<13])) \<le> 12
   \<and> toggleFavorite example_runtime (Some (example_place 13)) (map example_place [1..<13])
       = example_place 13 # map example_place [1..<12]"
proof -
  let ?favs = "map example_place [1..<13]"
  have len: "length ?favs = 12" by simp
  have absent: "\<not> isFavorite example_runtime ?favs (Some (example_place 13))"
    by (rule example_places_absent) simp_all
  have "[1..<13] = [1..<12] @ [12::nat]"
    using upt_Suc_append [of 1 12] by simp
  then have last: "butlast ?favs = map example_place [1..<12]"
    by (simp only: map_append butlast_snoc list.map)
  show ?thesis
    using toggleFavorite_bounded [of ?favs example_runtime "Some (example_place 13)"] len absent
    by (simp only: last) simp
qed

text \<open>
  C2, as stated: toggling the same place twice gives back the list, contents and order.
  It fails on the list of two favorites when the second one is toggled: the first toggle
  removes it, the second one puts it back in front.
\<close>

theorem toggleFavorite_twice_counterexample:
  "toggleFavorite example_runtime (Some (example_place 2))
     (toggleFavorite example_runtime (Some (example_place 2)) [example_place 1, example_place 2])
   \<noteq> [example_place 1, example_place 2]"
proof -
  have "isFavorite example_runtime [example_place 1, example_place 2] (Some (example_place 2))"
    by (simp add: isFavorite_def)
  then have "toggleFavorite example_runtime (Some (example_place 2))
               (toggleFavorite example_runtime (Some (example_place 2))
                  [example_place 1, example_place 2])
             = [example_place 2, example_place 1]"
    by (simp add: toggle_twice_present same_example_place)
  moreover have "example_place 2 \<noteq> example_place 1"
    by (simp add: example_place_def place_at_def)
  ultimately show ?thesis by simp
qed

text \<open>
  C2, amended. Toggling the same place twice gives back the list exactly in two cases: the
  place was not a favorite and the list had at most 11 entries; or the place was the first
  entry of a list of at most 12 entries, and no other entry was the same place. In every
  case the place is a favorite afterwards if and only if it was one before.
\<close>

theorem toggleFavorite_twice:
  "(toggleFavorite rt (Some q) (toggleFavorite rt (Some q) favs) = favs) =
     (if isFavorite rt favs (Some q)
      then length favs \<le> 12 \<and> (\<exists>rest. favs = q # rest \<and> \<not> isFavorite rt rest (Some q))
      else length favs \<le> 11)
   \<and> isFavorite rt (toggleFavorite rt (Some q) (toggleFavorite rt (Some q) favs)) (Some q)
       = isFavorite rt favs (Some q)"
proof (cases "isFavorite rt favs (Some q)")
  case False
  then show ?thesis
    by (simp add: toggle_twice_absent isFavorite_take)
next
  case True
  let ?rest = "filter (\<lambda>f. \<not> isSamePlace rt (Some f) (Some q)) favs"
  let ?twice = "toggleFavorite rt (Some q) (toggleFavorite rt (Some q) favs)"
  have twice: "?twice = q # take 11 ?rest"
    using True by (rule toggle_twice_present)
  have status: "isFavorite rt ?twice (Some q)"
    unfolding twice by (rule isFavorite_Cons)
  have "(?twice = favs) =
          (length favs \<le> 12 \<and> (\<exists>rest. favs = q # rest \<and> \<not> isFavorite rt rest (Some q)))"
  proof
    assume "?twice = favs"
    then have f: "favs = q # take 11 ?rest" using twice by simp
    have "length favs = Suc (length (take 11 ?rest))"
      using arg_cong [OF f, of length] by simp
    then have "length favs \<le> 12" by simp
    moreover have "\<not> isFavorite rt (take 11 ?rest) (Some q)"
      using isFavorite_filtered by (rule isFavorite_take)
    ultimately show "length favs \<le> 12
        \<and> (\<exists>rest. favs = q # rest \<and> \<not> isFavorite rt rest (Some q))"
      using f by blast
  next
    assume "length favs \<le> 12 \<and> (\<exists>rest. favs = q # rest \<and> \<not> isFavorite rt rest (Some q))"
    then obtain rest where r: "favs = q # rest" "\<not> isFavorite rt rest (Some q)"
        and len: "length favs \<le> 12"
      by blast
    have "?rest = rest" using r(1) filter_absent [OF r(2)] by simp
    moreover have "take 11 rest = rest" using r(1) len by simp
    ultimately show "?twice = favs" using twice r(1) by simp
  qed
  then show ?thesis using True status by simp
qed

theorem toggleFavorite_twice_witness:
  "toggleFavorite example_runtime (Some (example_place 2))
     (toggleFavorite example_runtime (Some (example_place 2)) [example_place 1])
     = [example_place 1]
   \<and> \<not> isFavorite example_runtime
         (toggleFavorite example_runtime (Some (example_place 2))
            (toggleFavorite example_runtime (Some (example_place 2)) [example_place 1]))
         (Some (example_place 2))"
proof -
  have absent: "\<not> isFavorite example_runtime [example_place 1] (Some (example_place 2))"
    by (simp add: isFavorite_def same_example_place)
  show ?thesis
    using toggleFavorite_twice [of example_runtime "example_place 2" "[example_place 1]"] absent
    by simp
qed

section \<open>The series builders\<close>

lemma push_points_eq: "push_points mk i bound out = out @ map mk [i..<bound]"
proof (induction mk i bound out rule: push_points.induct)
  case (1 mk i bound out)
  show ?case
  proof (cases "i < bound")
    case True
    then have "push_points mk i bound out = (out @ [mk i]) @ map mk [Suc i..<bound]"
      using "1.IH" by (simp add: push_points.simps [of mk i])
    then show ?thesis using True by (simp add: upt_conv_Cons)
  next
    case False
    then show ?thesis by (simp add: push_points.simps [of mk i])
  qed
qed

lemma find_start_miss:
  "\<forall>j. i \<le> j \<and> j < length ts \<longrightarrow> \<not> js_ge (date_parse rt (ts ! j)) now
   \<Longrightarrow> find_start rt ts now i s = s"
proof (induction rt ts now i s rule: find_start.induct)
  case (1 rt ts now i s)
  show ?case
  proof (cases "i < length ts")
    case True
    then have "\<not> js_ge (date_parse rt (ts ! i)) now" using "1.prems" by simp
    moreover have "find_start rt ts now (i + 1) s = s"
      using True calculation "1.prems" by (intro "1.IH") auto
    ultimately show ?thesis using True by (simp add: find_start.simps [of rt ts now i])
  next
    case False
    then show ?thesis by (simp add: find_start.simps [of rt ts now i])
  qed
qed

lemma find_start_hit:
  "i \<le> k \<Longrightarrow> k < length ts \<Longrightarrow> js_ge (date_parse rt (ts ! k)) now
   \<Longrightarrow> \<forall>j. i \<le> j \<and> j < k \<longrightarrow> \<not> js_ge (date_parse rt (ts ! j)) now
   \<Longrightarrow> find_start rt ts now i s = k"
proof (induction rt ts now i s rule: find_start.induct)
  case (1 rt ts now i s)
  have len: "i < length ts" using "1.prems" by simp
  show ?case
  proof (cases "i = k")
    case True
    show ?thesis
      unfolding True using "1.prems"(2,3) by (simp add: find_start.simps [of rt ts now k])
  next
    case False
    then have lt: "i < k" using "1.prems" by simp
    then have miss: "\<not> js_ge (date_parse rt (ts ! i)) now" using "1.prems" by simp
    have "find_start rt ts now (i + 1) s = k"
      using len miss lt "1.prems" by (intro "1.IH") auto
    then show ?thesis using len miss by (simp add: find_start.simps [of rt ts now i])
  qed
qed

lemma first_at_or_after_props:
  assumes "\<exists>t \<in> set ts. js_ge (date_parse rt t) now"
  shows "first_at_or_after rt ts now < length ts"
    and "js_ge (date_parse rt (ts ! first_at_or_after rt ts now)) now"
    and "\<forall>j < first_at_or_after rt ts now. \<not> js_ge (date_parse rt (ts ! j)) now"
proof -
  let ?P = "\<lambda>t. \<not> js_ge (date_parse rt t) now"
  have "takeWhile ?P ts \<noteq> ts" using assms by (auto simp: takeWhile_eq_all_conv)
  then have "length (takeWhile ?P ts) \<noteq> length ts"
    by (metis takeWhile_eq_take take_all_iff order_refl)
  then show lt: "first_at_or_after rt ts now < length ts"
    using length_takeWhile_le [of ?P ts] by (simp add: first_at_or_after_def)
  show "js_ge (date_parse rt (ts ! first_at_or_after rt ts now)) now"
    using nth_length_takeWhile [of ?P ts] lt by (simp add: first_at_or_after_def)
  show "\<forall>j < first_at_or_after rt ts now. \<not> js_ge (date_parse rt (ts ! j)) now"
  proof (intro allI impI)
    fix j assume j: "j < first_at_or_after rt ts now"
    then have "takeWhile ?P ts ! j \<in> set (takeWhile ?P ts)"
      by (simp add: first_at_or_after_def)
    then have "?P (takeWhile ?P ts ! j)" by (auto dest: set_takeWhileD)
    then show "\<not> js_ge (date_parse rt (ts ! j)) now"
      using j by (simp add: first_at_or_after_def takeWhile_nth)
  qed
qed

lemma find_start_first:
  assumes "\<exists>t \<in> set ts. js_ge (date_parse rt t) now"
  shows "find_start rt ts now 0 0 = first_at_or_after rt ts now"
  using first_at_or_after_props [OF assms]
  by (intro find_start_hit) auto

lemma buildHourlySeries_eq:
  "buildHourlySeries rt data nowISO hours locale =
     map (hourly_point_at rt locale (hourly_field data hourly_block.time)
            (hourly_field data temperature_2m) (hourly_field data apparent_temperature)
            (hourly_field data precipitation_probability))
       [find_start rt (hourly_field data hourly_block.time) (reference_instant rt nowISO) 0 0
        ..< min (length (hourly_field data hourly_block.time))
              (find_start rt (hourly_field data hourly_block.time)
                 (reference_instant rt nowISO) 0 0 + hours)]"
  by (simp add: buildHourlySeries_def Let_def push_points_eq)

text \<open>
  C3. When some timestamp of the hourly time array is at or after the reference instant,
  \<open>buildHourlySeries\<close> returns the points of the consecutive indices from \<open>k\<close>, the first
  index whose timestamp is at or after the reference instant, and their number is the
  minimum of the window size and of the number of entries from \<open>k\<close> to the end of the array.
\<close>

theorem buildHourlySeries_window:
  assumes "times_a = hourly_field data hourly_block.time"
    and "now = reference_instant rt nowISO"
    and "\<exists>t \<in> set times_a. js_ge (date_parse rt t) now"
    and "k = first_at_or_after rt times_a now"
  shows "k < length times_a
         \<and> js_ge (date_parse rt (times_a ! k)) now
         \<and> (\<forall>j < k. \<not> js_ge (date_parse rt (times_a ! j)) now)
         \<and> buildHourlySeries rt data nowISO hours locale =
             map (hourly_point_at rt locale times_a (hourly_field data temperature_2m)
                    (hourly_field data apparent_temperature)
                    (hourly_field data precipitation_probability))
               [k ..< min (length times_a) (k + hours)]
         \<and> length (buildHourlySeries rt data nowISO hours locale) = min hours (length times_a - k)"
proof -
  have first: "find_start rt times_a now 0 0 = k"
    using assms(3,4) by (simp add: find_start_first)
  have eq: "buildHourlySeries rt data nowISO hours locale =
             map (hourly_point_at rt locale times_a (hourly_field data temperature_2m)
                    (hourly_field data apparent_temperature)
                    (hourly_field data precipitation_probability))
               [k ..< min (length times_a) (k + hours)]"
    using first unfolding assms(1,2) by (simp only: buildHourlySeries_eq)
  have "length (buildHourlySeries rt data nowISO hours locale) = min hours (length times_a - k)"
    unfolding eq by simp
  then show ?thesis
    using first_at_or_after_props [OF assms(3)] eq unfolding assms(4) by simp
qed

text \<open>
  C6. When the hourly time array is not empty and the reference instant is after every
  timestamp in it, \<open>buildHourlySeries\<close> returns the points of the indices from 0: as many
  as the minimum of the window size and of the length of the array, so not an empty
  sequence unless the window size is zero.
\<close>

theorem buildHourlySeries_fallback:
  assumes "times_a = hourly_field data hourly_block.time"
    and "times_a \<noteq> []"
    and "reference_instant rt nowISO = Some n"
    and "\<forall>t \<in> set times_a. \<exists>v. date_parse rt t = Some v \<and> v < n"
  shows "buildHourlySeries rt data nowISO hours locale =
           map (hourly_point_at rt locale times_a (hourly_field data temperature_2m)
                  (hourly_field data apparent_temperature)
                  (hourly_field data precipitation_probability))
             [0 ..< min (length times_a) hours]
         \<and> length (buildHourlySeries rt data nowISO hours locale) = min hours (length times_a)
         \<and> (0 < hours \<longrightarrow> buildHourlySeries rt data nowISO hours locale \<noteq> [])"
proof -
  have "\<not> js_ge (date_parse rt (times_a ! j)) (Some n)" if "j < length times_a" for j
  proof -
    have "times_a ! j \<in> set times_a" using that by simp
    then obtain v where "date_parse rt (times_a ! j) = Some v" "v < n"
      using assms(4) by auto
    then show ?thesis by simp
  qed
  then have "find_start rt times_a (Some n) 0 0 = 0"
    by (intro find_start_miss) simp
  then have eq: "buildHourlySeries rt data nowISO hours locale =
           map (hourly_point_at rt locale times_a (hourly_field data temperature_2m)
                  (hourly_field data apparent_temperature)
                  (hourly_field data precipitation_probability))
             [0 ..< min (length times_a) hours]"
    unfolding assms(1) by (simp add: buildHourlySeries_eq assms(3))
  have len: "length (buildHourlySeries rt data nowISO hours locale) = min hours (length times_a)"
    unfolding eq by simp
  have "buildHourlySeries rt data nowISO hours locale \<noteq> []" if "0 < hours"
  proof -
    have "0 < min hours (length times_a)" using that assms(2) by simp
    then have "0 < length (buildHourlySeries rt data nowISO hours locale)"
      by (simp only: len)
    then show ?thesis by simp
  qed
  then show ?thesis using eq len by blast
qed

lemma example_times: "hourly_field (Some example_forecast) hourly_block.time = example_hours"
  by (simp add: hourly_field_def example_forecast_def)

lemma example_hours_eq:
  "example_hours = [''2024-05-01T00:00Z'', ''2024-05-01T01:00Z'', ''2024-05-01T02:00Z'',
                    ''2024-05-01T03:00Z'', ''2024-05-01T04:00Z'', ''2024-05-01T05:00Z'']"
  by (simp add: example_hours_def example_dates_def)

lemma example_parse:
  "date_parse example_runtime ''2024-05-01T00:00Z'' = Some 1714521600000"
  "date_parse example_runtime ''2024-05-01T01:00Z'' = Some 1714525200000"
  "date_parse example_runtime ''2024-05-01T02:00Z'' = Some 1714528800000"
  "date_parse example_runtime ''2024-05-01T03:00Z'' = Some 1714532400000"
  "date_parse example_runtime ''2024-05-01T04:00Z'' = Some 1714536000000"
  "date_parse example_runtime ''2024-05-01T05:00Z'' = Some 1714539600000"
  "date_parse example_runtime ''2024-05-01T07:00Z'' = Some 1714546800000"
  by (simp_all add: example_runtime_def example_dates_def)

theorem buildHourlySeries_window_witness:
  "(\<exists>t \<in> set example_hours. js_ge (date_parse example_runtime t)
        (reference_instant example_runtime (Some ''2024-05-01T04:00Z'')))
   \<and> first_at_or_after example_runtime example_hours
         (reference_instant example_runtime (Some ''2024-05-01T04:00Z'')) = 4
   \<and> length (buildHourlySeries example_runtime (Some example_forecast)
               (Some ''2024-05-01T04:00Z'') 24 ''pt-BR'') = 2
   \<and> map iso (buildHourlySeries example_runtime (Some example_forecast)
               (Some ''2024-05-01T04:00Z'') 24 ''pt-BR'')
       = [''2024-05-01T04:00Z'', ''2024-05-01T05:00Z'']"
proof -
  let ?now = "reference_instant example_runtime (Some ''2024-05-01T04:00Z'')"
  have now: "?now = Some 1714536000000"
    by (simp add: reference_instant_def example_parse)
  have ex: "\<exists>t \<in> set example_hours. js_ge (date_parse example_runtime t) ?now"
    unfolding now by (simp add: example_hours_eq example_parse)
  have k: "first_at_or_after example_runtime example_hours ?now = 4"
    unfolding now by (simp add: first_at_or_after_def example_hours_eq example_parse)
  have up: "[4..<6] = [4, 5::nat]"
    by (simp add: upt_rec_numeral)
  have len: "length example_hours = 6"
    by (simp add: example_hours_eq)
  have "buildHourlySeries example_runtime (Some example_forecast)
          (Some ''2024-05-01T04:00Z'') 24 ''pt-BR'' =
        map (hourly_point_at example_runtime ''pt-BR'' example_hours
               (hourly_field (Some example_forecast) temperature_2m)
               (hourly_field (Some example_forecast) apparent_temperature)
               (hourly_field (Some example_forecast) precipitation_probability)) [4, 5]"
    using buildHourlySeries_window [OF example_times [symmetric] refl ex k [symmetric],
        of 24 "''pt-BR''"]
    by (simp add: len up)
  then show ?thesis
    using ex k by (simp add: hourly_point_at_def example_hours_eq)
qed

theorem buildHourlySeries_fallback_witness:
  "example_hours \<noteq> []
   \<and> reference_instant example_runtime (Some ''2024-05-01T07:00Z'') = Some 1714546800000
   \<and> map (date_parse example_runtime) example_hours
       = [Some 1714521600000, Some 1714525200000, Some 1714528800000, Some 1714532400000,
          Some 1714536000000, Some 1714539600000]
   \<and> length (buildHourlySeries example_runtime (Some example_forecast)
               (Some ''2024-05-01T07:00Z'') 24 ''pt-BR'') = 6
   \<and> buildHourlySeries example_runtime (Some example_forecast)
         (Some ''2024-05-01T07:00Z'') 24 ''pt-BR'' \<noteq> []"
proof -
  have ne: "example_hours \<noteq> []"
    by (simp add: example_hours_eq)
  have now: "reference_instant example_runtime (Some ''2024-05-01T07:00Z'') = Some 1714546800000"
    by (simp add: reference_instant_def example_parse)
  have before: "\<forall>t \<in> set example_hours. \<exists>v. date_parse example_runtime t = Some v \<and> v < 1714546800000"
    by (simp add: example_hours_eq example_parse)
  have len: "length example_hours = 6"
    by (simp add: example_hours_eq)
  have parsed: "map (date_parse example_runtime) example_hours
       = [Some 1714521600000, Some 1714525200000, Some 1714528800000, Some 1714532400000,
          Some 1714536000000, Some 1714539600000]"
    by (simp add: example_hours_eq example_parse)
  show ?thesis
    using buildHourlySeries_fallback [OF example_times [symmetric] ne now before, of 24 "''pt-BR''"]
      ne now parsed
    by (simp add: len)
qed

lemma hourly_field_cases:
  "hourly_field None f = []"
  "hourly d = None \<Longrightarrow> hourly_field (Some d) f = []"
  "hourly d = Some h \<Longrightarrow> hourly_field (Some d) f = (case f h of None \<Rightarrow> [] | Some xs \<Rightarrow> xs)"
  by (simp_all add: hourly_field_def)

lemma daily_field_cases:
  "daily_field None g = Items []"
  "daily d = None \<Longrightarrow> daily_field (Some d) g = Items []"
  "daily d = Some dl \<Longrightarrow> daily_field (Some d) g = (case g dl of None \<Rightarrow> Items [] | Some v \<Rightarrow> v)"
  by (simp_all add: daily_field_def)

lemma buildDailySeries_items:
  "daily_field data daily_block.time = Items days \<Longrightarrow>
   buildDailySeries rt data locale =
     Inr (map (\<lambda>(i, d).
            \<lparr> day = d,
              label = upper_first rt locale (formatDayLabel rt d locale),
              max_temp = element (daily_field data temperature_2m_max) i,
              min_temp = element (daily_field data temperature_2m_min) i,
              code = element (daily_field data weather_code) i,
              daily_point.sunrise = element (daily_field data daily_block.sunrise) i,
              daily_point.sunset = element (daily_field data daily_block.sunset) i \<rparr>)
           (enumerate 0 days))"
  by (simp add: buildDailySeries_def Let_def)

lemma buildDailySeries_scalar:
  "daily_field data daily_block.time = Scalar \<Longrightarrow> buildDailySeries rt data locale = Inl TypeError"
  by (simp add: buildDailySeries_def Let_def)

lemma find_start_window:
  "find_start rt ts now 0 0 =
     (if \<exists>t \<in> set ts. js_ge (date_parse rt t) now then first_at_or_after rt ts now else 0)"
proof (cases "\<exists>t \<in> set ts. js_ge (date_parse rt t) now")
  case True
  then show ?thesis by (simp add: find_start_first)
next
  case False
  then have "find_start rt ts now 0 0 = 0"
    by (intro find_start_miss) simp
  then show ?thesis using False by simp
qed

lemma buildHourlySeries_points:
  "buildHourlySeries rt data nowISO hours locale =
     map (\<lambda>i. \<lparr> hourly_point.time =
                    formatTimeLabel rt (hourly_field data hourly_block.time ! i) locale,
                  temp = at_index (hourly_field data temperature_2m) i,
                  feels = at_index (hourly_field data apparent_temperature) i,
                  pop = at_index (hourly_field data precipitation_probability) i,
                  iso = hourly_field data hourly_block.time ! i \<rparr>)
       [find_start rt (hourly_field data hourly_block.time) (reference_instant rt nowISO) 0 0
        ..< min (length (hourly_field data hourly_block.time))
              (find_start rt (hourly_field data hourly_block.time)
                 (reference_instant rt nowISO) 0 0 + hours)]"
  unfolding buildHourlySeries_eq by (simp add: hourly_point_at_def)

text \<open>
  C10, as stated: on every snapshot in which the snapshot, a block or an array is absent,
  each builder returns a sequence rather than failing. It fails for the daily builder on
  a response without an hourly block, whose daily block has the number 7 as its time field
  and no other field: \<open>7 || []\<close> is 7, and \<open>t.map\<close> is not a function.
\<close>

theorem buildDailySeries_throws_counterexample:
  "hourly example_scalar_time = None
   \<and> buildDailySeries example_runtime (Some example_scalar_time) ''pt-BR'' = Inl TypeError"
  by (simp add: example_scalar_time_def buildDailySeries_def daily_field_def)

text \<open>
  C10, amended. A missing response, block or array is read as the empty array, and an
  array as it is. The hourly builder returns the points of the indices from \<open>k\<close> to the
  smaller of the length of the time array and of \<open>k\<close> plus the window size, where \<open>k\<close> is the
  first index whose timestamp is at or after the reference instant, and 0 when there is
  none. When the daily time field is missing or an array, the daily builder returns one
  point for each entry of it, in order. A field of a point that is read at an index where
  its array has no entry, as in a missing array, is undefined. Each builder returns the
  empty sequence when its time array is missing or empty. When the daily time field is a
  scalar, the daily builder throws a \<open>TypeError\<close>.
\<close>

theorem series_builders_return:
  assumes "times_a = hourly_field data hourly_block.time"
    and "now = reference_instant rt nowISO"
    and "k = (if \<exists>t \<in> set times_a. js_ge (date_parse rt t) now
              then first_at_or_after rt times_a now else 0)"
  shows
    "hourly_field None f = []
     \<and> (hourly d = None \<longrightarrow> hourly_field (Some d) f = [])
     \<and> (hourly d = Some h \<longrightarrow>
           hourly_field (Some d) f = (case f h of None \<Rightarrow> [] | Some xs \<Rightarrow> xs))
     \<and> daily_field None g = Items []
     \<and> (daily d = None \<longrightarrow> daily_field (Some d) g = Items [])
     \<and> (daily d = Some dl \<longrightarrow>
           daily_field (Some d) g = (case g dl of None \<Rightarrow> Items [] | Some v \<Rightarrow> v))
     \<and> buildHourlySeries rt data nowISO hours loc =
           map (\<lambda>i. \<lparr> hourly_point.time = formatTimeLabel rt (times_a ! i) loc,
                        temp = at_index (hourly_field data temperature_2m) i,
                        feels = at_index (hourly_field data apparent_temperature) i,
                        pop = at_index (hourly_field data precipitation_probability) i,
                        iso = times_a ! i \<rparr>)
             [k ..< min (length times_a) (k + hours)]
     \<and> (times_a = [] \<longrightarrow> buildHourlySeries rt data nowISO hours loc = [])
     \<and> (daily_field data daily_block.time = Items days \<longrightarrow>
           buildDailySeries rt data loc =
             Inr (map (\<lambda>(i, d).
                    \<lparr> day = d,
                      label = upper_first rt loc (formatDayLabel rt d loc),
                      max_temp = element (daily_field data temperature_2m_max) i,
                      min_temp = element (daily_field data temperature_2m_min) i,
                      code = element (daily_field data weather_code) i,
                      daily_point.sunrise = element (daily_field data daily_block.sunrise) i,
                      daily_point.sunset = element (daily_field data daily_block.sunset) i \<rparr>)
                   (enumerate 0 days)))
     \<and> (daily_field data daily_block.time = Items [] \<longrightarrow>
           buildDailySeries rt data loc = Inr [])
     \<and> element (Items xs) i = (if i < length xs then Some (xs ! i) else None)
     \<and> element (Items []) i = (None :: 'e option)
     \<and> (daily_field data daily_block.time = Scalar \<longrightarrow>
           buildDailySeries rt data loc = Inl TypeError)"
proof -
  have hourly: "buildHourlySeries rt data nowISO hours loc =
           map (\<lambda>i. \<lparr> hourly_point.time = formatTimeLabel rt (times_a ! i) loc,
                        temp = at_index (hourly_field data temperature_2m) i,
                        feels = at_index (hourly_field data apparent_temperature) i,
                        pop = at_index (hourly_field data precipitation_probability) i,
                        iso = times_a ! i \<rparr>)
             [k ..< min (length times_a) (k + hours)]"
    unfolding assms by (simp only: buildHourlySeries_points find_start_window)
  have empty: "times_a = [] \<Longrightarrow> buildHourlySeries rt data nowISO hours loc = []"
    unfolding hourly by simp
  have none: "daily_field data daily_block.time = Items [] \<Longrightarrow>
                buildDailySeries rt data loc = Inr []"
    by (simp add: buildDailySeries_items)
  show ?thesis
    using hourly empty none
    by (simp add: hourly_field_cases daily_field_cases buildDailySeries_items
          buildDailySeries_scalar at_index_def)
qed

theorem series_builders_return_witness:
  "buildDailySeries example_runtime (Some example_week) ''pt-BR'' =
     Inr [\<lparr> day = ''2024-05-01'', label = ''Qua.'', max_temp = Some 25, min_temp = None,
             code = Some 3, daily_point.sunrise = Some ''2024-05-01T06:10'',
             daily_point.sunset = None \<rparr>,
          \<lparr> day = ''2024-05-02'', label = ''Qua.'', max_temp = Some 26, min_temp = None,
             code = Some 61, daily_point.sunrise = Some ''2024-05-02T06:11'',
             daily_point.sunset = None \<rparr>,
          \<lparr> day = ''2024-05-03'', label = ''Qua.'', max_temp = None, min_temp = None,
             code = Some 0, daily_point.sunrise = Some ''2024-05-03T06:11'',
             daily_point.sunset = None \<rparr>]
   \<and> buildHourlySeries example_runtime (Some example_week) None 2 ''pt-BR'' =
       [\<lparr> hourly_point.time = ''02:00'', temp = Some 18, feels = Some 19, pop = None,
           iso = ''2024-05-01T02:00Z'' \<rparr>,
        \<lparr> hourly_point.time = ''03:00'', temp = Some 17, feels = Some 18, pop = None,
           iso = ''2024-05-01T03:00Z'' \<rparr>]
   \<and> buildHourlySeries example_runtime None None 24 ''pt-BR'' = []
   \<and> buildDailySeries example_runtime None ''pt-BR'' = Inr []"
proof -
  note c7 = conjunct2 [THEN conjunct2, THEN conjunct2, THEN conjunct2, THEN conjunct2,
      THEN conjunct2, THEN conjunct1]
  note c8 = conjunct2 [THEN conjunct2, THEN conjunct2, THEN conjunct2, THEN conjunct2,
      THEN conjunct2, THEN conjunct2, THEN conjunct1]
  note c9 = conjunct2 [THEN conjunct2, THEN conjunct2, THEN conjunct2, THEN conjunct2,
      THEN conjunct2, THEN conjunct2, THEN conjunct2, THEN conjunct1]
  note c10 = conjunct2 [THEN conjunct2, THEN conjunct2, THEN conjunct2, THEN conjunct2,
      THEN conjunct2, THEN conjunct2, THEN conjunct2, THEN conjunct2, THEN conjunct1]
  let ?days = "[''2024-05-01'', ''2024-05-02'', ''2024-05-03'']"
  have fields:
    "daily_field (Some example_week) daily_block.time = Items ?days"
    "daily_field (Some example_week) temperature_2m_max = Items [25, 26]"
    "daily_field (Some example_week) temperature_2m_min = Items []"
    "daily_field (Some example_week) weather_code = Items [3, 61, 0]"
    "daily_field (Some example_week) daily_block.sunrise
       = Items [''2024-05-01T06:10'', ''2024-05-02T06:11'', ''2024-05-03T06:11'']"
    "daily_field (Some example_week) daily_block.sunset = Items []"
    by (simp_all add: daily_field_def example_week_def)
  have label: "upper_first example_runtime ''pt-BR'' (formatDayLabel example_runtime d ''pt-BR'')
                 = ''Qua.''" for d
    by (simp add: formatDayLabel_def example_runtime_def)
  have arrays:
    "hourly_field (Some example_week) hourly_block.time = example_hours"
    "hourly_field (Some example_week) temperature_2m = [20, 19, 18, 17, 16, 15]"
    "hourly_field (Some example_week) apparent_temperature = [21, 20, 19, 18, 17, 16]"
    "hourly_field (Some example_week) precipitation_probability = []"
    by (simp_all add: hourly_field_def example_week_def example_forecast_def)
  have now: "reference_instant example_runtime None = Some 1714528800000"
    by (simp add: reference_instant_def example_runtime_def)
  have k: "(2::nat) = (if \<exists>t \<in> set example_hours. js_ge (date_parse example_runtime t)
                            (Some 1714528800000)
                       then first_at_or_after example_runtime example_hours (Some 1714528800000)
                       else 0)"
    by (simp add: first_at_or_after_def example_hours_eq example_parse)
  have labels: "formatTimeLabel example_runtime ''2024-05-01T02:00Z'' ''pt-BR'' = ''02:00''"
    "formatTimeLabel example_runtime ''2024-05-01T03:00Z'' ''pt-BR'' = ''03:00''"
    by (simp_all add: formatTimeLabel_def example_runtime_def)
  have up: "[2..<4] = [2, 3::nat]"
    by (simp add: upt_rec_numeral)
  have len: "length example_hours = 6"
    by (simp add: example_hours_eq)
  have daily: "buildDailySeries example_runtime (Some example_week) ''pt-BR'' =
     Inr [\<lparr> day = ''2024-05-01'', label = ''Qua.'', max_temp = Some 25, min_temp = None,
             code = Some 3, daily_point.sunrise = Some ''2024-05-01T06:10'',
             daily_point.sunset = None \<rparr>,
          \<lparr> day = ''2024-05-02'', label = ''Qua.'', max_temp = Some 26, min_temp = None,
             code = Some 61, daily_point.sunrise = Some ''2024-05-02T06:11'',
             daily_point.sunset = None \<rparr>,
          \<lparr> day = ''2024-05-03'', label = ''Qua.'', max_temp = None, min_temp = None,
             code = Some 0, daily_point.sunrise = Some ''2024-05-03T06:11'',
             daily_point.sunset = None \<rparr>]"
    using series_builders_return [OF arrays(1) [symmetric] now [symmetric] k,
        where loc = "''pt-BR''" and days = ?days, THEN c9, rule_format, OF fields(1)]
    by (simp add: fields label at_index_def)
  have hourly: "buildHourlySeries example_runtime (Some example_week) None 2 ''pt-BR'' =
       [\<lparr> hourly_point.time = ''02:00'', temp = Some 18, feels = Some 19, pop = None,
           iso = ''2024-05-01T02:00Z'' \<rparr>,
        \<lparr> hourly_point.time = ''03:00'', temp = Some 17, feels = Some 18, pop = None,
           iso = ''2024-05-01T03:00Z'' \<rparr>]"
    using series_builders_return [OF arrays(1) [symmetric] now [symmetric] k,
        where loc = "''pt-BR''" and hours = 2, THEN c7]
    by (simp add: arrays len up at_index_def) (simp add: example_hours_eq labels)
  have e: "hourly_field None hourly_block.time = ([] :: string list)"
    by (simp add: hourly_field_def)
  have no_hourly: "buildHourlySeries example_runtime None None 24 ''pt-BR'' = []"
    using series_builders_return [OF e [symmetric] refl refl,
        where rt = example_runtime and hours = 24 and loc = "''pt-BR''" and nowISO = None,
        THEN c8]
    by simp
  have "daily_field None daily_block.time = (Items [] :: string field_value)"
    by (simp add: daily_field_def)
  then have no_daily: "buildDailySeries example_runtime None ''pt-BR'' = Inr []"
    using series_builders_return [OF e [symmetric] refl refl,
        where rt = example_runtime and loc = "''pt-BR''" and nowISO = None, THEN c10]
    by simp
  show ?thesis using daily hourly no_hourly no_daily by simp
qed

section \<open>The network boundaries\<close>

lemma fetchJson_cases:
  "fetch url = Failed \<Longrightarrow> fetchJson fetch url = Inl NetworkError"
  "fetch url = Response status body \<Longrightarrow> \<not> (200 \<le> status \<and> status \<le> 299)
     \<Longrightarrow> fetchJson fetch url = Inl (HttpError status)"
  "fetch url = Response status None \<Longrightarrow> 200 \<le> status \<Longrightarrow> status \<le> 299
     \<Longrightarrow> fetchJson fetch url = Inl JsonError"
  "fetch url = Response status (Some data) \<Longrightarrow> 200 \<le> status \<Longrightarrow> status \<le> 299
     \<Longrightarrow> fetchJson fetch url = Inr data"
  by (simp_all add: fetchJson_def)

text \<open>
  C4, as stated: \<open>geocode\<close> never throws to its caller and returns an empty sequence on a
  network error or a response that is not 2xx. It fails on a response with status 500:
  \<open>fetchJson\<close> throws, \<open>geocode\<close> has no handler, and its promise is rejected.
\<close>

theorem geocode_throws_counterexample:
  "geocode example_runtime (\<lambda>url. Response 500 None) ''Recife'' 6 ''pt'' = Inl (HttpError 500)
   \<and> geocode example_runtime (\<lambda>url. Response 500 None) ''Recife'' 6 ''pt'' \<noteq> Inr []"
  by (simp add: geocode_def fetchJson_def)

text \<open>
  C4, amended. \<open>geocode\<close> rejects on a network error, on a response that is not 2xx and
  on a body that is not JSON; on success it returns the normalized results. Its caller,
  the debounced search, catches the rejection and, while the search is still live, sets
  the suggestions to the empty sequence; a search that is no longer live changes nothing.
\<close>

theorem geocode_outcomes:
  assumes "url = geocode_url rt query count language"
  shows "(fetch url = Failed \<longrightarrow> geocode rt fetch query count language = Inl NetworkError)
   \<and> (fetch url = Response status body \<and> \<not> (200 \<le> status \<and> status \<le> 299)
        \<longrightarrow> geocode rt fetch query count language = Inl (HttpError status))
   \<and> (fetch url = Response status None \<and> 200 \<le> status \<and> status \<le> 299
        \<longrightarrow> geocode rt fetch query count language = Inl JsonError)
   \<and> (fetch url = Response status (Some data) \<and> 200 \<le> status \<and> status \<le> 299
        \<longrightarrow> geocode rt fetch query count language =
              Inr (map (normalizePlace rt)
                     (case data of
                        None \<Rightarrow> []
                      | Some d \<Rightarrow> (case results d of None \<Rightarrow> [] | Some rs \<Rightarrow> rs))))
   \<and> (geocode rt fetch query 6 ''pt'' = Inl e
        \<longrightarrow> debouncedSearch rt fetch query True suggestions = [])
   \<and> (geocode rt fetch query 6 ''pt'' = Inr res
        \<longrightarrow> debouncedSearch rt fetch query True suggestions = res)
   \<and> debouncedSearch rt fetch query False suggestions = suggestions"
proof (intro conjI impI)
  show "debouncedSearch rt fetch query False suggestions = suggestions"
    by (simp add: debouncedSearch_def split: sum.split)
qed (auto simp: geocode_def Let_def assms fetchJson_cases debouncedSearch_def)

theorem geocode_outcomes_witness:
  "geocode example_runtime (\<lambda>url. Failed) ''Recife'' 6 ''pt'' = Inl NetworkError
   \<and> geocode example_runtime (\<lambda>url. Response 500 None) ''Recife'' 6 ''pt'' = Inl (HttpError 500)
   \<and> debouncedSearch example_runtime (\<lambda>url. Response 500 None) ''Recife'' True
        [Some default_place] = []
   \<and> geocode example_runtime
        (\<lambda>url. Response 200 (Some (Some \<lparr>results = Some [Some example_raw_place]\<rparr>)))
        ''Recife'' 6 ''pt''
      = Inr [normalizePlace example_runtime (Some example_raw_place)]"
proof -
  let ?url = "geocode_url example_runtime ''Recife'' 6 ''pt''"
  let ?down = "\<lambda>url :: string. Response 500 (None :: geo_payload option option)"
  let ?data = "Some \<lparr>results = Some [Some example_raw_place]\<rparr>"
  let ?up = "\<lambda>url :: string. Response 200 (Some ?data)"
  have failed: "geocode example_runtime (\<lambda>url. Failed) ''Recife'' 6 ''pt'' = Inl NetworkError"
    using geocode_outcomes [of ?url example_runtime "''Recife''" 6 "''pt''" "\<lambda>url. Failed"]
    by simp
  have down: "geocode example_runtime ?down ''Recife'' 6 ''pt'' = Inl (HttpError 500)"
    using geocode_outcomes [of ?url example_runtime "''Recife''" 6 "''pt''" ?down 500 None]
    by simp
  have caught: "debouncedSearch example_runtime ?down ''Recife'' True [Some default_place] = []"
    using geocode_outcomes [of ?url example_runtime "''Recife''" 6 "''pt''" ?down 500 None
        None "HttpError 500" "[Some default_place]"] down
    by simp
  have up: "geocode example_runtime ?up ''Recife'' 6 ''pt''
              = Inr [normalizePlace example_runtime (Some example_raw_place)]"
    using geocode_outcomes [of ?url example_runtime "''Recife''" 6 "''pt''" ?up 200 None ?data]
    by simp
  show ?thesis using failed down caught up by simp
qed



text \<open>
  C8. \<open>fetchForecast\<close> fetches the forecast URL built from the parameters of
  \<open>forecastParams\<close>, each of which occurs once: the temperature unit is fahrenheit and the
  wind-speed unit mph when the unit is \<open>"imperial"\<close>, celsius and kmh otherwise;
  \<open>forecast_days\<close> is 7; latitude and longitude are the place's; the timezone is the place's,
  and \<open>"auto"\<close> when the place has none.
\<close>

theorem fetchForecast_request:
  "fetchForecast rt fetch p unit =
     fetchJson fetch (''https://api.open-meteo.com/v1/forecast?''
                      @ params_to_string rt (forecastParams rt p unit))
   \<and> map_of (forecastParams rt p unit) ''temperature_unit''
       = Some (if unit = ''imperial'' then ''fahrenheit'' else ''celsius'')
   \<and> map_of (forecastParams rt p unit) ''wind_speed_unit''
       = Some (if unit = ''imperial'' then ''mph'' else ''kmh'')
   \<and> map_of (forecastParams rt p unit) ''forecast_days'' = Some ''7''
   \<and> map_of (forecastParams rt p unit) ''latitude'' = Some (num_to_string rt (place.latitude p))
   \<and> map_of (forecastParams rt p unit) ''longitude'' = Some (num_to_string rt (place.longitude p))
   \<and> map_of (forecastParams rt p unit) ''timezone''
       = Some (case place.timezone p of
                 None \<Rightarrow> ''auto''
               | Some tz \<Rightarrow> if tz = [] then ''auto'' else tz)
   \<and> distinct (map fst (forecastParams rt p unit))"
proof (intro conjI)
  show "fetchForecast rt fetch p unit =
     fetchJson fetch (''https://api.open-meteo.com/v1/forecast?''
                      @ params_to_string rt (forecastParams rt p unit))"
    by (simp add: fetchForecast_def forecast_url_def)
  show "map_of (forecastParams rt p unit) ''timezone''
       = Some (case place.timezone p of
                 None \<Rightarrow> ''auto''
               | Some tz \<Rightarrow> if tz = [] then ''auto'' else tz)"
    by (cases "place.timezone p") (simp_all add: forecastParams_def Let_def)
qed (simp_all add: forecastParams_def Let_def)

theorem fetchForecast_request_witness:
  "map_of (forecastParams example_runtime default_place ''imperial'') ''temperature_unit''
     = Some ''fahrenheit''
   \<and> map_of (forecastParams example_runtime default_place ''imperial'') ''wind_speed_unit''
     = Some ''mph''
   \<and> map_of (forecastParams example_runtime default_place ''metric'') ''temperature_unit''
     = Some ''celsius''
   \<and> map_of (forecastParams example_runtime default_place ''metric'') ''wind_speed_unit''
     = Some ''kmh''
   \<and> map_of (forecastParams example_runtime default_place ''metric'') ''forecast_days''
     = Some ''7''
   \<and> map_of (forecastParams example_runtime default_place ''metric'') ''latitude''
     = Some ''-23.5505''
   \<and> map_of (forecastParams example_runtime default_place ''metric'') ''timezone''
     = Some ''America/Sao_Paulo''
   \<and> map_of (forecastParams example_runtime (place_at 20 10) ''metric'') ''timezone''
     = Some ''auto''"
proof -
  have lat: "num_to_string example_runtime (place.latitude default_place) = ''-23.5505''"
    by (simp add: default_place_def example_runtime_def example_numbers_def)
  have tz: "place.timezone default_place = Some ''America/Sao_Paulo''"
      "place.timezone (place_at 20 10) = None"
    by (simp_all add: default_place_def place_at_def)
  note imperial = fetchForecast_request [of example_runtime "\<lambda>url. Failed" default_place
      "''imperial''"]
  note metric = fetchForecast_request [of example_runtime "\<lambda>url. Failed" default_place
      "''metric''"]
  note other = fetchForecast_request [of example_runtime "\<lambda>url. Failed" "place_at 20 10"
      "''metric''"]
  note c2 = conjunct2 [THEN conjunct1]
  note c3 = conjunct2 [THEN conjunct2, THEN conjunct1]
  note c4 = conjunct2 [THEN conjunct2, THEN conjunct2, THEN conjunct1]
  note c5 = conjunct2 [THEN conjunct2, THEN conjunct2, THEN conjunct2, THEN conjunct1]
  note c7 = conjunct2 [THEN conjunct2, THEN conjunct2, THEN conjunct2, THEN conjunct2,
      THEN conjunct2, THEN conjunct1]
  have "map_of (forecastParams example_runtime default_place ''imperial'') ''temperature_unit''
          = Some ''fahrenheit''"
    using imperial [THEN c2] by simp
  moreover
  have "map_of (forecastParams example_runtime default_place ''imperial'') ''wind_speed_unit''
          = Some ''mph''"
    using imperial [THEN c3] by simp
  moreover
  have "map_of (forecastParams example_runtime default_place ''metric'') ''temperature_unit''
          = Some ''celsius''"
    using metric [THEN c2] by simp
  moreover
  have "map_of (forecastParams example_runtime default_place ''metric'') ''wind_speed_unit''
          = Some ''kmh''"
    using metric [THEN c3] by simp
  moreover
  have "map_of (forecastParams example_runtime default_place ''metric'') ''forecast_days''
          = Some ''7''"
    using metric [THEN c4] by simp
  moreover
  have "map_of (forecastParams example_runtime default_place ''metric'') ''latitude''
          = Some ''-23.5505''"
    using metric [THEN c5] by (simp add: lat)
  moreover
  have "map_of (forecastParams example_runtime default_place ''metric'') ''timezone''
          = Some ''America/Sao_Paulo''"
    using metric [THEN c7] by (simp add: tz)
  moreover
  have "map_of (forecastParams example_runtime (place_at 20 10) ''metric'') ''timezone''
          = Some ''auto''"
    using other [THEN c7] by (simp add: tz)
  ultimately show ?thesis by blast
qed

end
